theory Spec2Isabelle
  imports Complex_Main "HOL-Library.Log_Nat"
begin

section \<open>Double-precision arithmetic\<close>

text \<open>
  JavaScript numbers are IEEE 754 doubles. A division or multiplication returns the
  exact result rounded to the nearest number with a 53-bit significand, ties to the
  even significand (\<open>fl\<close>). Doubles are represented by the rationals they denote. The
  exponent range is not modelled: the operands of this program are integers below
  \<open>2^53\<close> built from array lengths, on which sums, products and differences are exact,
  and quotients of such integers, far from overflow and underflow.
  \<open>Math.round\<close> returns the nearest integer, a tie going to the larger one.
\<close>

definition rne :: "rat \<Rightarrow> int" where
  "rne x = (let f = \<lfloor>x\<rfloor>; d = x - of_int f
            in if d < 1 / 2 then f
               else if 1 / 2 < d then f + 1
               else if even f then f else f + 1)"

definition ilog2 :: "rat \<Rightarrow> int" where
  "ilog2 x = (let (p, q) = quotient_of x; k = bitlen p - bitlen q
              in if 2 powi k \<le> x then k else k - 1)"

definition fl :: "rat \<Rightarrow> rat" where
  "fl x = (if x = 0 then 0
           else let u = 2 powi (ilog2 \<bar>x\<bar> - 52) in of_int (rne (x / u)) * u)"

definition fdiv :: "rat \<Rightarrow> rat \<Rightarrow> rat" where
  "fdiv x y = fl (x / y)"

definition fmul :: "rat \<Rightarrow> rat \<Rightarrow> rat" where
  "fmul x y = fl (x * y)"

definition Math_round :: "rat \<Rightarrow> int" where
  "Math_round x = \<lfloor>x + 1 / 2\<rfloor>"

section \<open>JavaScript values used by the auditor\<close>

text \<open>
  The thresholds of the configuration are produced by \<open>parseInt\<close> on environment
  strings (config.js): the result is an integer, \<open>NaN\<close> when the string starts with no
  digit, or an infinity when the digits exceed the range of doubles. Every comparison
  with \<open>NaN\<close> is false. Issue counts are array lengths, hence natural numbers.
\<close>

datatype jsnum = Num int | NaN | PosInfinity | NegInfinity

fun js_le :: "nat \<Rightarrow> jsnum \<Rightarrow> bool" where
  "js_le n (Num k) = (int n \<le> k)"
| "js_le n NaN = False"
| "js_le n PosInfinity = True"
| "js_le n NegInfinity = False"

fun js_gt :: "nat \<Rightarrow> jsnum \<Rightarrow> bool" where
  "js_gt n (Num k) = (int n > k)"
| "js_gt n NaN = False"
| "js_gt n PosInfinity = False"
| "js_gt n NegInfinity = True"

text \<open>
  Reading a property of an object literal: an own property yields its string; a name that
  the literal does not define is looked up on \<open>Object.prototype\<close>, whose properties are
  functions (and, for \<open>__proto__\<close>, an object), all of them truthy; any other name yields
  \<open>undefined\<close>. \<open>v || d\<close> keeps a truthy \<open>v\<close> and replaces a falsy one by \<open>d\<close>.
\<close>

datatype js_error = TypeError | ScanError

datatype jsprop = Str string | Inherited string | Undefined

definition Object_prototype_names :: "string list" where
  "Object_prototype_names =
     [''constructor'', ''__defineGetter__'', ''__defineSetter__'', ''hasOwnProperty'',
      ''__lookupGetter__'', ''__lookupSetter__'', ''isPrototypeOf'', ''propertyIsEnumerable'',
      ''toString'', ''valueOf'', ''__proto__'', ''toLocaleString'']"

definition get_property :: "(string \<times> string) list \<Rightarrow> string \<Rightarrow> jsprop" where
  "get_property literal key =
     (case map_of literal key of
        Some v \<Rightarrow> Str v
      | None \<Rightarrow> if key \<in> set Object_prototype_names then Inherited key else Undefined)"

fun or_default :: "jsprop \<Rightarrow> string \<Rightarrow> jsprop" where
  "or_default Undefined d = Str d"
| "or_default (Str s) d = (if s = [] then Str d else Str s)"
| "or_default (Inherited k) d = Inherited k"

text \<open>
  Conversion of a number to a string, as template literals and \<open>toString\<close> perform it.
  JavaScript prints the shortest decimal that reads back as the same double: among the
  decimals with the fewest significant digits, the one closest to the number (the even
  one at equal distance). For an integer \<open>x\<close> these are multiples of a power of ten
  \<open>10^e\<close>; \<open>candidate x e\<close> tries the two multiples around \<open>x\<close> and \<open>shortest\<close> goes
  from the coarsest power to the finest. A result below \<open>10^21\<close> is printed in full,
  a larger one in exponent form. \<open>Num k\<close> stands for a number when \<open>k\<close> is a double, as
  every integer of magnitude below \<open>2^53\<close> is; for any other \<open>k\<close>, which no JavaScript
  value denotes, the search finds nothing and the decimal digits of \<open>k\<close> are printed.
\<close>

fun digits :: "nat \<Rightarrow> string" where
  "digits n = (if n < 10 then [char_of (48 + n)]
               else digits (n div 10) @ [char_of (48 + n mod 10)])"

declare digits.simps [simp del]

definition candidate :: "nat \<Rightarrow> nat \<Rightarrow> nat option" where
  "candidate x e =
     (let q = 10 ^ e; lo = (x div q) * q; hi = lo + q;
          lo_ok = (fl (of_nat lo) = of_nat x);
          hi_ok = (fl (of_nat hi) = of_nat x)
      in if lo_ok \<and> hi_ok then
           (if x - lo < hi - x then Some lo
            else if hi - x < x - lo then Some hi
            else if even (x div q) then Some lo else Some hi)
         else if lo_ok then Some lo
         else if hi_ok then Some hi
         else None)"

fun shortest :: "nat \<Rightarrow> nat \<Rightarrow> nat option" where
  "shortest x 0 = candidate x 0"
| "shortest x (Suc e) = (case candidate x (Suc e) of Some c \<Rightarrow> Some c | None \<Rightarrow> shortest x e)"

definition strip_zeros :: "string \<Rightarrow> string" where
  "strip_zeros s = rev (dropWhile (\<lambda>c. c = CHR ''0'') (rev s))"

definition exponent_form :: "nat \<Rightarrow> string" where
  "exponent_form c =
     (case strip_zeros (digits c) of
        [] \<Rightarrow> []
      | d # ds \<Rightarrow> d # (if ds = [] then [] else CHR ''.'' # ds)
                  @ ''e+'' @ digits (length (digits c) - 1))"

definition nat_toString :: "nat \<Rightarrow> string" where
  "nat_toString x =
     (if x = 0 then ''0''
      else case shortest x (length (digits x) - 1) of
             None \<Rightarrow> digits x
           | Some c \<Rightarrow> if length (digits c) \<le> 21 then digits c else exponent_form c)"

fun Number_toString :: "jsnum \<Rightarrow> string" where
  "Number_toString (Num k) =
     (if k < 0 then CHR ''-'' # nat_toString (nat (- k)) else nat_toString (nat k))"
| "Number_toString NaN = ''NaN''"
| "Number_toString PosInfinity = ''Infinity''"
| "Number_toString NegInfinity = ''-Infinity''"

text \<open>
  The check mark U+2713 and the ballot cross U+2717 of the check messages, the white
  check mark U+2705 and the cross mark U+274C of the notification, as UTF-8 bytes.
\<close>

definition check_mark :: string where
  "check_mark = [CHR 0xE2, CHR 0x9C, CHR 0x93]"

definition cross_mark :: string where
  "cross_mark = [CHR 0xE2, CHR 0x9C, CHR 0x97]"

definition white_check_mark :: string where
  "white_check_mark = [CHR 0xE2, CHR 0x9C, CHR 0x85]"

definition red_cross_mark :: string where
  "red_cross_mark = [CHR 0xE2, CHR 0x9D, CHR 0x8C]"

section \<open>Configuration (config.js)\<close>

record Config =
  cfg_wcagLevel :: string
  cfg_wcagVersion :: string
  maxCriticalIssues :: jsnum
  maxSeriousIssues :: jsnum
  maxModerateIssues :: jsnum
  failOnSerious :: bool
  reportOutputDir :: string

section \<open>AccessibilityAuditor (auditor.js)\<close>

text \<open>
  The scan engine returns the page title and a list of findings. An issue is a finding
  with its WCAG level and criterion added. The private methods \<open>_processResults\<close>,
  \<open>_determineStatus\<close>, ... are written without the leading underscore; the auditor's
  configuration is their first argument.
\<close>

datatype status = PASSED | FAILED

record Finding =
  code :: string
  issue_message :: string
  type :: string
  selector :: "string option"

record Issue = Finding +
  wcagLevel :: jsprop
  wcagCriteria :: jsprop

record Pa11yResult =
  documentTitle :: string
  pa11y_issues :: "Finding list"

record IssueSet =
  critical :: "Issue list"
  serious :: "Issue list"
  moderate :: "Issue list"
  minor :: "Issue list"

record Summary =
  total :: nat
  critical_count :: nat
  serious_count :: nat
  moderate_count :: nat
  minor_count :: nat

definition severityMap :: "(string \<times> string) list" where
  "severityMap =
     [(''error'', ''critical''), (''warning'', ''serious''),
      (''notice'', ''moderate''), (''info'', ''minor'')]"

definition levelMap :: "(string \<times> string) list" where
  "levelMap =
     [(''image-alt'', ''A''), (''color-contrast'', ''AA''), (''heading-order'', ''A''),
      (''label'', ''A''), (''button-name'', ''A''), (''link-name'', ''A''),
      (''form-field-multiple-labels'', ''A''), (''duplicate-id'', ''A''),
      (''aria-required-attr'', ''A''), (''aria-valid-attr'', ''A''),
      (''select-name'', ''A''), (''textarea-name'', ''A'')]"

definition criteriaMap :: "(string \<times> string) list" where
  "criteriaMap =
     [(''image-alt'', ''WCAG 2.1 Level A - 1.1.1 Non-text Content''),
      (''color-contrast'', ''WCAG 2.1 Level AA - 1.4.3 Contrast (Minimum)''),
      (''heading-order'', ''WCAG 2.1 Level A - 1.3.1 Info and Relationships''),
      (''label'', ''WCAG 2.1 Level A - 1.3.1 Info and Relationships''),
      (''button-name'', ''WCAG 2.1 Level A - 4.1.2 Name, Role, Value''),
      (''link-name'', ''WCAG 2.1 Level A - 4.1.2 Name, Role, Value''),
      (''form-field-multiple-labels'', ''WCAG 2.1 Level A - 1.3.1 Info and Relationships''),
      (''duplicate-id'', ''WCAG 2.1 Level A - 4.1.1 Parsing''),
      (''aria-required-attr'', ''WCAG 2.1 Level A - 4.1.2 Name, Role, Value''),
      (''aria-valid-attr'', ''WCAG 2.1 Level A - 4.1.2 Name, Role, Value''),
      (''select-name'', ''WCAG 2.1 Level A - 4.1.2 Name, Role, Value''),
      (''textarea-name'', ''WCAG 2.1 Level A - 4.1.2 Name, Role, Value'')]"

definition getWCAGLevel :: "string \<Rightarrow> jsprop" where
  "getWCAGLevel c = or_default (get_property levelMap c) ''AA''"

definition getWCAGCriteria :: "string \<Rightarrow> jsprop" where
  "getWCAGCriteria c =
     or_default (get_property criteriaMap c) ''WCAG 2.1 Level A - General Accessibility''"

text \<open>
  \<open>issues[category].push(...)\<close>: the object \<open>issues\<close> has the four buckets as own
  properties. Any other category (a function inherited by \<open>severityMap\<close>, used as a
  property key) names no array, and calling \<open>push\<close> on the result throws a TypeError.
\<close>

definition push_issue :: "IssueSet \<Rightarrow> jsprop \<Rightarrow> Issue \<Rightarrow> js_error + IssueSet" where
  "push_issue issues category i =
     (if category = Str ''critical'' then Inr (issues\<lparr>critical := critical issues @ [i]\<rparr>)
      else if category = Str ''serious'' then Inr (issues\<lparr>serious := serious issues @ [i]\<rparr>)
      else if category = Str ''moderate'' then Inr (issues\<lparr>moderate := moderate issues @ [i]\<rparr>)
      else if category = Str ''minor'' then Inr (issues\<lparr>minor := minor issues @ [i]\<rparr>)
      else Inl TypeError)"

definition categorize :: "IssueSet \<Rightarrow> Finding \<Rightarrow> js_error + IssueSet" where
  "categorize issues issue =
     (let category = or_default (get_property severityMap (type issue)) ''minor''
      in push_issue issues category
           \<lparr> code = code issue, issue_message = issue_message issue, type = type issue,
             selector = selector issue,
             wcagLevel = getWCAGLevel (code issue),
             wcagCriteria = getWCAGCriteria (code issue) \<rparr>)"

text \<open>\<open>forEach\<close> with a callback that updates the buckets; an exception ends the loop.\<close>

fun forEach :: "('s \<Rightarrow> 'a \<Rightarrow> js_error + 's) \<Rightarrow> 'a list \<Rightarrow> 's \<Rightarrow> js_error + 's" where
  "forEach f [] s = Inr s"
| "forEach f (x # xs) s = (case f s x of Inl e \<Rightarrow> Inl e | Inr s' \<Rightarrow> forEach f xs s')"

definition determineStatus :: "Config \<Rightarrow> IssueSet \<Rightarrow> status" where
  "determineStatus config issues =
     (if js_gt (length (critical issues)) (maxCriticalIssues config) then FAILED
      else if failOnSerious config \<and> js_gt (length (serious issues)) (maxSeriousIssues config)
      then FAILED
      else PASSED)"

definition calculateCompliance :: "IssueSet \<Rightarrow> int" where
  "calculateCompliance issues =
     (let total = fold (\<lambda>arr sum. sum + length arr)
                    [critical issues, serious issues, moderate issues, minor issues] 0
      in if total = 0 then 100
         else let points = length (critical issues) * 100 + length (serious issues) * 50
                         + length (moderate issues) * 20 + length (minor issues) * 5;
                  maxPoints = total * 100
              in Math_round (fmul (fdiv (of_int (int maxPoints - int points)) (of_nat maxPoints)) 100))"

text \<open>
  \<open>_processResults\<close> reads the wall clock for the timestamp; the reading is the argument
  \<open>now\<close>.
\<close>

record AuditResult =
  url :: string
  timestamp :: string
  audit_wcagLevel :: string
  audit_wcagVersion :: string
  summary :: Summary
  issues :: IssueSet
  status :: status
  compliance :: int

definition processResults :: "Config \<Rightarrow> string \<Rightarrow> Pa11yResult \<Rightarrow> js_error + AuditResult" where
  "processResults config now auditResult =
     (case forEach categorize (pa11y_issues auditResult)
             \<lparr> critical = [], serious = [], moderate = [], minor = [] \<rparr> of
        Inl e \<Rightarrow> Inl e
      | Inr issues' \<Rightarrow>
          Inr \<lparr> url = documentTitle auditResult,
                timestamp = now,
                audit_wcagLevel = cfg_wcagLevel config,
                audit_wcagVersion = cfg_wcagVersion config,
                summary = \<lparr> total = length (pa11y_issues auditResult),
                            critical_count = length (critical issues'),
                            serious_count = length (serious issues'),
                            moderate_count = length (moderate issues'),
                            minor_count = length (minor issues') \<rparr>,
                issues = issues',
                status = determineStatus config issues',
                compliance = calculateCompliance issues' \<rparr>)"

text \<open>
  \<open>audit\<close> awaits the scan engine (\<open>pa11y\<close>, an external collaborator and here the
  parameter \<open>scan\<close>), processes its result and rethrows whatever was thrown. It also
  keeps the result in \<open>this.results\<close> for the getters of the class, which no function
  below reads.
\<close>

definition audit ::
  "Config \<Rightarrow> string \<Rightarrow> (string \<Rightarrow> js_error + Pa11yResult) \<Rightarrow> string \<Rightarrow> js_error + AuditResult" where
  "audit config now scan u =
     (case scan u of
        Inl e \<Rightarrow> Inl e
      | Inr auditResult \<Rightarrow> processResults config now auditResult)"

section \<open>ReportGenerator (reportGenerator.js)\<close>

text \<open>The \<open>auditResults\<close> block of the report object built by \<open>_buildReport\<close>.\<close>

record ReportAuditResults =
  report_url :: string
  report_timestamp :: string
  report_status :: status
  report_complianceScore :: int

definition buildReport_auditResults :: "AuditResult \<Rightarrow> ReportAuditResults" where
  "buildReport_auditResults auditResults =
     \<lparr> report_url = url auditResults,
       report_timestamp = timestamp auditResults,
       report_status = status auditResults,
       report_complianceScore = compliance auditResults \<rparr>"

section \<open>ComplianceChecker (complianceChecker.js)\<close>

text \<open>
  The three threshold checks have one shape, the WCAG check another; \<open>checks\<close> also
  carries the compliance score, a bare number. The private methods
  \<open>_checkCriticalIssues\<close>, ... are written here without the leading underscore.
  A checker is constructed with its configuration, which is the first argument of each
  method below.
\<close>

record ThresholdCheck =
  metric :: string
  current :: nat
  threshold :: jsnum
  passed :: bool
  message :: string

record WCAGCheck =
  wcag_metric :: string
  currentLevel :: string
  compliant :: bool
  wcag_passed :: bool
  wcag_message :: string

record Checks =
  criticalIssues :: ThresholdCheck
  seriousIssues :: ThresholdCheck
  moderateIssues :: ThresholdCheck
  wcagCompliance :: WCAGCheck
  complianceScore :: int

definition threshold_message :: "string \<Rightarrow> bool \<Rightarrow> nat \<Rightarrow> jsnum \<Rightarrow> string" where
  "threshold_message what ok n limit =
     (if ok
      then check_mark @ '' '' @ what @ '' issues within threshold (''
           @ Number_toString (Num (int n)) @ ''/'' @ Number_toString limit @ '')''
      else cross_mark @ '' '' @ what @ '' issues exceed threshold (''
           @ Number_toString (Num (int n)) @ ''/'' @ Number_toString limit @ '')'')"

definition checkCriticalIssues :: "Config \<Rightarrow> AuditResult \<Rightarrow> ThresholdCheck" where
  "checkCriticalIssues config auditResults =
     (let count = critical_count (summary auditResults);
          passed = js_le count (maxCriticalIssues config)
      in \<lparr> metric = ''Critical Issues'', current = count,
           threshold = maxCriticalIssues config, passed = passed,
           message = threshold_message ''Critical'' passed count (maxCriticalIssues config) \<rparr>)"

definition checkSeriousIssues :: "Config \<Rightarrow> AuditResult \<Rightarrow> ThresholdCheck" where
  "checkSeriousIssues config auditResults =
     (let count = serious_count (summary auditResults);
          passed = js_le count (maxSeriousIssues config)
      in \<lparr> metric = ''Serious Issues'', current = count,
           threshold = maxSeriousIssues config, passed = passed,
           message = threshold_message ''Serious'' passed count (maxSeriousIssues config) \<rparr>)"

definition checkModerateIssues :: "Config \<Rightarrow> AuditResult \<Rightarrow> ThresholdCheck" where
  "checkModerateIssues config auditResults =
     (let count = moderate_count (summary auditResults);
          passed = js_le count (maxModerateIssues config)
      in \<lparr> metric = ''Moderate Issues'', current = count,
           threshold = maxModerateIssues config, passed = passed,
           message = threshold_message ''Moderate'' passed count (maxModerateIssues config) \<rparr>)"

definition checkWCAGCompliance :: "Config \<Rightarrow> AuditResult \<Rightarrow> WCAGCheck" where
  "checkWCAGCompliance config auditResults =
     (let passed = (critical_count (summary auditResults) = 0)
      in \<lparr> wcag_metric = ''WCAG 2.1 Level AA Compliance'',
           currentLevel = cfg_wcagLevel config, compliant = passed, wcag_passed = passed,
           wcag_message =
             (if passed
              then check_mark @ '' WCAG 2.1 Level '' @ cfg_wcagLevel config @ '' Compliant''
              else cross_mark @ '' WCAG 2.1 Level '' @ cfg_wcagLevel config @ '' Non-Compliant (''
                   @ Number_toString (Num (int (critical_count (summary auditResults))))
                   @ '' critical issues)'') \<rparr>)"

definition determineOverallPass :: "Config \<Rightarrow> Checks \<Rightarrow> bool" where
  "determineOverallPass config checks =
     (if \<not> passed (criticalIssues checks) then False
      else if failOnSerious config \<and> \<not> passed (seriousIssues checks) then False
      else True)"

text \<open>
  \<open>Object.values(checks)\<close> lists the five property values in insertion order. Reading
  \<open>.message\<close> or \<open>.passed\<close> of a number yields \<open>undefined\<close> (\<open>None\<close> here), which is
  falsy; a string is truthy unless it is empty.
\<close>

datatype check_value = TC ThresholdCheck | WC WCAGCheck | NumV int

definition Object_values :: "Checks \<Rightarrow> check_value list" where
  "Object_values checks =
     [TC (criticalIssues checks), TC (seriousIssues checks), TC (moderateIssues checks),
      WC (wcagCompliance checks), NumV (complianceScore checks)]"

fun message_of :: "check_value \<Rightarrow> string option" where
  "message_of (TC c) = Some (message c)"
| "message_of (WC c) = Some (wcag_message c)"
| "message_of (NumV n) = None"

fun passed_of :: "check_value \<Rightarrow> bool option" where
  "passed_of (TC c) = Some (passed c)"
| "passed_of (WC c) = Some (wcag_passed c)"
| "passed_of (NumV n) = None"

fun truthy_string :: "string option \<Rightarrow> bool" where
  "truthy_string None = False"
| "truthy_string (Some s) = (s \<noteq> [])"

fun truthy_bool :: "bool option \<Rightarrow> bool" where
  "truthy_bool None = False"
| "truthy_bool (Some b) = b"

record ComplianceReport =
  report_summary :: "string option list"
  details :: "check_value list"
  allChecksPassed :: bool

definition generateComplianceReport :: "Checks \<Rightarrow> ComplianceReport" where
  "generateComplianceReport checks =
     (let checkResults = filter (\<lambda>check. truthy_string (message_of check)) (Object_values checks)
      in \<lparr> report_summary = map message_of checkResults,
           details = checkResults,
           allChecksPassed = list_all (\<lambda>check. truthy_bool (passed_of check)) checkResults \<rparr>)"

record ComplianceResult =
  result_passed :: bool
  checks :: Checks
  result_timestamp :: string
  report :: ComplianceReport

text \<open>
  \<open>check\<close> reads the wall clock (\<open>new Date().toISOString()\<close>); the reading is the
  explicit argument \<open>now\<close>. The call to the logger writes a line and returns nothing
  that \<open>check\<close> uses.
\<close>

definition check :: "Config \<Rightarrow> string \<Rightarrow> AuditResult \<Rightarrow> ComplianceResult" where
  "check config now auditResults =
     (let checks = \<lparr> criticalIssues = checkCriticalIssues config auditResults,
                     seriousIssues = checkSeriousIssues config auditResults,
                     moderateIssues = checkModerateIssues config auditResults,
                     wcagCompliance = checkWCAGCompliance config auditResults,
                     complianceScore = compliance auditResults \<rparr>;
          passed = determineOverallPass config checks
      in \<lparr> result_passed = passed, checks = checks, result_timestamp = now,
           report = generateComplianceReport checks \<rparr>)"

text \<open>
  The message for the CI webhook, built by \<open>_buildNotificationMessage\<close>: one attachment
  with six fields. \<open>Date.now()\<close>, in milliseconds, is the argument \<open>now_ms\<close>.
  \<open>join\<close> prints an undefined element as the empty string.
\<close>

record Field =
  field_title :: string
  field_value :: string
  short :: bool

record Attachment =
  color :: string
  attachment_title :: string
  attachment_text :: string
  attachment_fields :: "Field list"
  ts :: nat

record NotificationMessage =
  attachments :: "Attachment list"

fun status_string :: "status \<Rightarrow> string" where
  "status_string PASSED = ''PASSED''"
| "status_string FAILED = ''FAILED''"

fun join_lines :: "string option list \<Rightarrow> string" where
  "join_lines [] = []"
| "join_lines [x] = (case x of None \<Rightarrow> [] | Some s \<Rightarrow> s)"
| "join_lines (x # y # ys) =
     (case x of None \<Rightarrow> [] | Some s \<Rightarrow> s) @ CHR 0x0A # join_lines (y # ys)"

definition buildNotificationMessage ::
  "Config \<Rightarrow> nat \<Rightarrow> ComplianceResult \<Rightarrow> AuditResult \<Rightarrow> NotificationMessage" where
  "buildNotificationMessage config now_ms complianceResult auditResults =
     (let statusEmoji = (if result_passed complianceResult then white_check_mark else red_cross_mark);
          statusColor = (if result_passed complianceResult then ''#2ecc71'' else ''#e74c3c'')
      in \<lparr> attachments =
             [\<lparr> color = statusColor,
                 attachment_title = statusEmoji @ '' Accessibility Audit Report'',
                 attachment_text =
                   (if result_passed complianceResult then ''All compliance checks passed!''
                    else ''Compliance check failed - Deployment blocked''),
                 attachment_fields =
                   [\<lparr> field_title = ''Status'',
                       field_value = status_string (status auditResults), short = True \<rparr>,
                    \<lparr> field_title = ''Compliance Score'',
                       field_value = Number_toString (Num (compliance auditResults)) @ ''%'',
                       short = True \<rparr>,
                    \<lparr> field_title = ''Critical Issues'',
                       field_value =
                         Number_toString (Num (int (critical_count (summary auditResults))))
                         @ '' (Max: '' @ Number_toString (maxCriticalIssues config) @ '')'',
                       short = True \<rparr>,
                    \<lparr> field_title = ''Serious Issues'',
                       field_value =
                         Number_toString (Num (int (serious_count (summary auditResults))))
                         @ '' (Max: '' @ Number_toString (maxSeriousIssues config) @ '')'',
                       short = True \<rparr>,
                    \<lparr> field_title = ''Total Issues'',
                       field_value = Number_toString (Num (int (total (summary auditResults)))),
                       short = True \<rparr>,
                    \<lparr> field_title = ''Checks Summary'',
                       field_value = join_lines (report_summary (report complianceResult)),
                       short = False \<rparr>],
                 ts = now_ms div 1000 \<rparr>] \<rparr>)"

text \<open>The titles and the values of all fields of a message, in order.\<close>

definition field_titles :: "NotificationMessage \<Rightarrow> string list" where
  "field_titles msg = concat (map (\<lambda>a. map field_title (attachment_fields a)) (attachments msg))"

definition field_values :: "NotificationMessage \<Rightarrow> string list" where
  "field_values msg = concat (map (\<lambda>a. map field_value (attachment_fields a)) (attachments msg))"

section \<open>Report download (the HTTP server)\<close>

text \<open>
  \<open>path.join\<close> of Node.js on POSIX paths: the non-empty arguments are joined with
  \<open>/\<close> and the result is normalised, which drops empty and \<open>.\<close> segments and lets a
  \<open>..\<close> segment remove the segment before it. Above the root of an absolute path a
  \<open>..\<close> is dropped; a relative path keeps its leading \<open>..\<close> segments. The segments
  kept so far are held in \<open>res\<close>, the last one first.
\<close>

fun split_slash :: "string \<Rightarrow> string list" where
  "split_slash [] = [[]]"
| "split_slash (c # cs) =
     (if c = CHR ''/'' then [] # split_slash cs
      else (case split_slash cs of [] \<Rightarrow> [[c]] | s # ss \<Rightarrow> (c # s) # ss))"

fun join_slash :: "string list \<Rightarrow> string" where
  "join_slash [] = []"
| "join_slash [s] = s"
| "join_slash (s # t # ss) = s @ CHR ''/'' # join_slash (t # ss)"

fun normalizeString :: "bool \<Rightarrow> string list \<Rightarrow> string list \<Rightarrow> string list" where
  "normalizeString allowAboveRoot [] res = rev res"
| "normalizeString allowAboveRoot (seg # segs) res =
     (if seg = [] \<or> seg = ''.'' then normalizeString allowAboveRoot segs res
      else if seg = ''..'' then
        (case res of
           lastSegment # below \<Rightarrow>
             if lastSegment \<noteq> ''..'' then normalizeString allowAboveRoot segs below
             else if allowAboveRoot then normalizeString allowAboveRoot segs (''..'' # res)
             else normalizeString allowAboveRoot segs res
         | [] \<Rightarrow>
             if allowAboveRoot then normalizeString allowAboveRoot segs [''..'']
             else normalizeString allowAboveRoot segs [])
      else normalizeString allowAboveRoot segs (seg # res))"

definition normalize :: "string \<Rightarrow> string" where
  "normalize path =
     (if path = [] then ''.''
      else let isAbsolute = (hd path = CHR ''/'');
               trailingSeparator = (last path = CHR ''/'');
               p = join_slash (normalizeString (\<not> isAbsolute) (split_slash path) [])
           in if p = [] then (if isAbsolute then ''/'' else if trailingSeparator then ''./'' else ''.'')
              else let p' = (if trailingSeparator then p @ ''/'' else p)
                   in if isAbsolute then CHR ''/'' # p' else p')"

definition path_join :: "string list \<Rightarrow> string" where
  "path_join args =
     (let parts = filter (\<lambda>arg. arg \<noteq> []) args
      in if parts = [] then ''.'' else normalize (join_slash parts))"

text \<open>
  The handler of \<open>GET /reports/:filename\<close>. Its inputs are the directory of the server
  module (\<open>__dirname\<close>), the configuration, the file system as far as \<open>fs.existsSync\<close>
  reads it, and the route parameter: the path segment after \<open>/reports/\<close>, percent-decoded
  by the router, so that the request \<open>/reports/..%2Fpackage.json\<close> arrives with the
  filename \<open>../package.json\<close>. The handler answers 404 or hands the joined path to
  \<open>res.download\<close>; nothing in its \<open>try\<close> block throws, so the 500 branch is not reached.
\<close>

datatype response = Status nat string | Download string

definition download_report :: "string \<Rightarrow> Config \<Rightarrow> (string \<Rightarrow> bool) \<Rightarrow> string \<Rightarrow> response" where
  "download_report dirname config existsSync filename =
     (let filepath = path_join [dirname, ''..'', reportOutputDir config, filename]
      in if \<not> existsSync filepath then Status 404 ''Report not found''
         else Download filepath)"

text \<open>The report directory as the server computes it, and the paths that lie inside it.\<close>

definition reports_dir :: "string \<Rightarrow> Config \<Rightarrow> string" where
  "reports_dir dirname config = path_join [dirname, ''..'', reportOutputDir config]"

definition inside :: "string \<Rightarrow> string \<Rightarrow> bool" where
  "inside dir path = (take (length dir + 1) path = dir @ ''/'')"

section \<open>The score as the specification words it\<close>

text \<open>
  The specification gives the score of a non-empty issue set as the nearest integer to
  \<open>((maxPoints - points) / maxPoints) * 100\<close>, with one tie rule, half-up or half-even.
  These definitions follow its words in exact arithmetic, for comparison with
  \<open>calculateCompliance\<close>.
\<close>

definition bucket_total :: "IssueSet \<Rightarrow> nat" where
  "bucket_total iss =
     length (critical iss) + length (serious iss) + length (moderate iss) + length (minor iss)"

definition penalty_points :: "IssueSet \<Rightarrow> nat" where
  "penalty_points iss =
     length (critical iss) * 100 + length (serious iss) * 50
     + length (moderate iss) * 20 + length (minor iss) * 5"

definition exact_percentage :: "IssueSet \<Rightarrow> rat" where
  "exact_percentage iss =
     (of_int (int (bucket_total iss * 100) - int (penalty_points iss))
        / of_nat (bucket_total iss * 100)) * 100"

definition spec_compliance_half_up :: "IssueSet \<Rightarrow> int" where
  "spec_compliance_half_up iss =
     (if bucket_total iss = 0 then 100 else \<lfloor>exact_percentage iss + 1 / 2\<rfloor>)"

definition spec_compliance_half_even :: "IssueSet \<Rightarrow> int" where
  "spec_compliance_half_even iss =
     (if bucket_total iss = 0 then 100 else rne (exact_percentage iss))"

section \<open>Concrete inputs\<close>

text \<open>
  The configuration of the test suite (zero critical, five serious, fifteen moderate
  issues allowed, \<open>failOnSerious\<close> set) and variations of it: two critical issues
  allowed; \<open>failOnSerious\<close> off; and the configuration loaded when
  \<open>MAX_CRITICAL_ISSUES\<close> holds no number, so that \<open>parseInt\<close> returns \<open>NaN\<close>, and
  \<open>FAIL_ON_SERIOUS\<close> is not set. Audit results are given by their summary counts, as
  the tests of the checker build them.
\<close>

definition default_config :: Config where
  "default_config =
     \<lparr> cfg_wcagLevel = ''AA'', cfg_wcagVersion = ''2.1'',
       maxCriticalIssues = Num 0, maxSeriousIssues = Num 5, maxModerateIssues = Num 15,
       failOnSerious = True, reportOutputDir = ''./reports'' \<rparr>"

definition tolerant_config :: Config where
  "tolerant_config = default_config\<lparr>maxCriticalIssues := Num 2\<rparr>"

definition lenient_config :: Config where
  "lenient_config = default_config\<lparr>failOnSerious := False\<rparr>"

definition nan_config :: Config where
  "nan_config = default_config\<lparr>maxCriticalIssues := NaN, failOnSerious := False\<rparr>"

definition audit_of_counts :: "nat \<Rightarrow> nat \<Rightarrow> nat \<Rightarrow> nat \<Rightarrow> int \<Rightarrow> status \<Rightarrow> AuditResult" where
  "audit_of_counts c s m n score st =
     \<lparr> url = ''Example Bank'', timestamp = ''2024-01-01T00:00:00.000Z'',
       audit_wcagLevel = ''AA'', audit_wcagVersion = ''2.1'',
       summary = \<lparr> total = c + s + m + n, critical_count = c, serious_count = s,
                   moderate_count = m, minor_count = n \<rparr>,
       issues = \<lparr> critical = [], serious = [], moderate = [], minor = [] \<rparr>,
       status = st, compliance = score \<rparr>"

text \<open>
  The issue pushed for a finding, and scan results: one with two findings of known
  severities, with the audit result it is processed into, and one whose finding has the
  engine severity \<open>constructor\<close>.
\<close>

definition enrich :: "Finding \<Rightarrow> Issue" where
  "enrich f = \<lparr> code = code f, issue_message = issue_message f, type = type f,
               selector = selector f, wcagLevel = getWCAGLevel (code f),
               wcagCriteria = getWCAGCriteria (code f) \<rparr>"

definition no_issues :: IssueSet where
  "no_issues = \<lparr> critical = [], serious = [], moderate = [], minor = [] \<rparr>"

definition finding :: "string \<Rightarrow> string \<Rightarrow> Finding" where
  "finding c t = \<lparr> code = c, issue_message = ''Fix this element'', type = t,
                   selector = Some ''main > img'' \<rparr>"

definition bank_scan :: Pa11yResult where
  "bank_scan = \<lparr> documentTitle = ''Example Bank - Home'',
                 pa11y_issues = [finding ''image-alt'' ''error'', finding ''label'' ''warning''] \<rparr>"

definition bank_audit :: AuditResult where
  "bank_audit =
     \<lparr> url = ''Example Bank - Home'', timestamp = ''2024-01-01T00:00:00.000Z'',
       audit_wcagLevel = ''AA'', audit_wcagVersion = ''2.1'',
       summary = \<lparr> total = 2, critical_count = 1, serious_count = 1,
                   moderate_count = 0, minor_count = 0 \<rparr>,
       issues = \<lparr> critical = [enrich (finding ''image-alt'' ''error'')],
                  serious = [enrich (finding ''label'' ''warning'')],
                  moderate = [], minor = [] \<rparr>,
       status = FAILED, compliance = 25 \<rparr>"

definition odd_scan :: Pa11yResult where
  "odd_scan = \<lparr> documentTitle = ''Example Bank - Home'',
                pa11y_issues = [finding ''image-alt'' ''constructor''] \<rparr>"

definition bank_engine :: "string \<Rightarrow> js_error + Pa11yResult" where
  "bank_engine u = (if u = ''https://bank.example/'' then Inr bank_scan else Inl ScanError)"

text \<open>Issue sets with given bucket sizes.\<close>

definition issues_of_counts :: "nat \<Rightarrow> nat \<Rightarrow> nat \<Rightarrow> nat \<Rightarrow> IssueSet" where
  "issues_of_counts c s m n =
     \<lparr> critical = replicate c (enrich (finding ''image-alt'' ''error'')),
       serious = replicate s (enrich (finding ''label'' ''warning'')),
       moderate = replicate m (enrich (finding ''heading-order'' ''notice'')),
       minor = replicate n (enrich (finding ''link-name'' ''info'')) \<rparr>"

text \<open>A deployment whose only file outside the report directory is \<open>package.json\<close>.\<close>

definition app_files :: "string \<Rightarrow> bool" where
  "app_files path = (path = ''/app/package.json'' \<or> path = ''/app/reports/compliance-report-2024-01-01.json'')"

section \<open>Properties of the threshold checker\<close>

lemma check_simps:
  "result_passed (check config now a) = determineOverallPass config (checks (check config now a))"
  "passed (criticalIssues (checks (check config now a))) =
     js_le (critical_count (summary a)) (maxCriticalIssues config)"
  "passed (seriousIssues (checks (check config now a))) =
     js_le (serious_count (summary a)) (maxSeriousIssues config)"
  "passed (moderateIssues (checks (check config now a))) =
     js_le (moderate_count (summary a)) (maxModerateIssues config)"
  "wcag_passed (wcagCompliance (checks (check config now a))) = (critical_count (summary a) = 0)"
  by (simp_all add: check_def Let_def checkCriticalIssues_def checkSeriousIssues_def
        checkModerateIssues_def checkWCAGCompliance_def)

lemma js_gt_not_le: "js_gt n k \<Longrightarrow> \<not> js_le n k"
  by (cases k) auto

lemma js_le_iff_not_gt: "k \<noteq> NaN \<Longrightarrow> js_le n k = (\<not> js_gt n k)"
  by (cases k) auto

lemma summary_audit_of_counts [simp]:
  "critical_count (summary (audit_of_counts c s m n score st)) = c"
  "serious_count (summary (audit_of_counts c s m n score st)) = s"
  "moderate_count (summary (audit_of_counts c s m n score st)) = m"
  "minor_count (summary (audit_of_counts c s m n score st)) = n"
  by (simp_all add: audit_of_counts_def)

lemma default_config_simps [simp]:
  "maxCriticalIssues default_config = Num 0" "maxSeriousIssues default_config = Num 5"
  "maxModerateIssues default_config = Num 15" "failOnSerious default_config"
  by (simp_all add: default_config_def)

lemma tolerant_config_simps [simp]:
  "maxCriticalIssues tolerant_config = Num 2"
  by (simp add: tolerant_config_def)

lemma lenient_config_simps [simp]:
  "maxCriticalIssues lenient_config = Num 0" "maxSeriousIssues lenient_config = Num 5"
  "maxModerateIssues lenient_config = Num 15" "\<not> failOnSerious lenient_config"
  by (simp_all add: lenient_config_def)

lemma nan_config_simps [simp]:
  "maxCriticalIssues nan_config = NaN" "\<not> failOnSerious nan_config"
  by (simp_all add: nan_config_def)

text \<open>
  C1. The overall \<open>passed\<close> of \<open>check\<close> holds exactly when the critical count is within
  \<open>maxCriticalIssues\<close> and, if \<open>failOnSerious\<close> is set, the serious count is within
  \<open>maxSeriousIssues\<close>. A critical count above its threshold always fails the check, and
  replacing the moderate and WCAG checks by any others leaves the decision unchanged.
\<close>

theorem check_overall_passed:
  "(result_passed (check config now a) =
      (js_le (critical_count (summary a)) (maxCriticalIssues config) \<and>
       (\<not> failOnSerious config \<or> js_le (serious_count (summary a)) (maxSeriousIssues config))))
   \<and> (js_gt (critical_count (summary a)) (maxCriticalIssues config) \<longrightarrow>
        \<not> result_passed (check config now a))
   \<and> determineOverallPass config (cs\<lparr>moderateIssues := m, wcagCompliance := w\<rparr>) =
        determineOverallPass config cs"
  by (auto simp add: check_simps determineOverallPass_def dest: js_gt_not_le)

theorem check_overall_passed_witness:
  "js_gt 1 (Num 0) \<and>
   \<not> result_passed (check lenient_config ''2024-01-01T00:00:00.000Z''
                      (audit_of_counts 1 2 5 10 70 FAILED))"
  using check_overall_passed [of lenient_config "''2024-01-01T00:00:00.000Z''"
          "audit_of_counts 1 2 5 10 70 FAILED"]
  by simp

text \<open>
  C6. The WCAG check passes exactly when there is no critical issue, whatever
  \<open>maxCriticalIssues\<close> is: with two critical issues allowed and one found, the
  critical-issues check passes and the WCAG check fails.
\<close>

theorem wcag_check_zero_tolerance:
  "(wcag_passed (wcagCompliance (checks (check config now a))) = (critical_count (summary a) = 0))
   \<and> maxCriticalIssues tolerant_config = Num 2
   \<and> critical_count (summary (audit_of_counts 1 0 0 0 0 PASSED)) = 1
   \<and> passed (criticalIssues (checks (check tolerant_config now (audit_of_counts 1 0 0 0 0 PASSED))))
   \<and> \<not> wcag_passed (wcagCompliance (checks (check tolerant_config now (audit_of_counts 1 0 0 0 0 PASSED))))"
  by (simp add: check_simps)

theorem wcag_check_zero_tolerance_witness:
  "\<not> wcag_passed (wcagCompliance (checks (check default_config ''2024-01-01T00:00:00.000Z''
                                              (audit_of_counts 3 0 0 0 0 FAILED))))"
  using wcag_check_zero_tolerance [of default_config "''2024-01-01T00:00:00.000Z''"
          "audit_of_counts 3 0 0 0 0 FAILED"]
  by simp

lemma threshold_message_nonempty: "threshold_message what ok n limit \<noteq> []"
  by (simp add: threshold_message_def check_mark_def cross_mark_def)

lemma wcag_message_nonempty: "wcag_message (checkWCAGCompliance config a) \<noteq> []"
  by (simp add: checkWCAGCompliance_def Let_def check_mark_def cross_mark_def)

lemma message_nonempty:
  "message (checkCriticalIssues config a) \<noteq> []"
  "message (checkSeriousIssues config a) \<noteq> []"
  "message (checkModerateIssues config a) \<noteq> []"
  by (simp_all add: checkCriticalIssues_def checkSeriousIssues_def checkModerateIssues_def
        Let_def threshold_message_nonempty)

text \<open>The number in \<open>checks\<close> has no message, so the report lists the four checks.\<close>

lemma details_check:
  "details (report (check config now a)) =
     [TC (checkCriticalIssues config a), TC (checkSeriousIssues config a),
      TC (checkModerateIssues config a), WC (checkWCAGCompliance config a)]"
  by (simp add: check_def Let_def generateComplianceReport_def Object_values_def
        wcag_message_nonempty message_nonempty)

lemma allChecksPassed_details:
  "allChecksPassed (report (check config now a)) =
     list_all (\<lambda>c. truthy_bool (passed_of c)) (details (report (check config now a)))"
  by (simp add: check_def Let_def generateComplianceReport_def)

text \<open>
  C9. \<open>report.allChecksPassed\<close> holds exactly when the four checks all passed. It is
  stricter than the overall \<open>passed\<close>: with twenty moderate issues against fifteen
  allowed, no critical issue, two serious ones and \<open>failOnSerious\<close> off, the check
  passes while \<open>allChecksPassed\<close> is false.
\<close>

theorem allChecksPassed_all_four:
  "(allChecksPassed (report (check config now a)) =
      (passed (criticalIssues (checks (check config now a))) \<and>
       passed (seriousIssues (checks (check config now a))) \<and>
       passed (moderateIssues (checks (check config now a))) \<and>
       wcag_passed (wcagCompliance (checks (check config now a)))))
   \<and> \<not> failOnSerious lenient_config
   \<and> passed (criticalIssues (checks (check lenient_config now (audit_of_counts 0 2 20 10 80 PASSED))))
   \<and> passed (seriousIssues (checks (check lenient_config now (audit_of_counts 0 2 20 10 80 PASSED))))
   \<and> \<not> passed (moderateIssues (checks (check lenient_config now (audit_of_counts 0 2 20 10 80 PASSED))))
   \<and> result_passed (check lenient_config now (audit_of_counts 0 2 20 10 80 PASSED))
   \<and> \<not> allChecksPassed (report (check lenient_config now (audit_of_counts 0 2 20 10 80 PASSED)))"
proof -
  have "allChecksPassed (report (check c now x)) =
      (passed (criticalIssues (checks (check c now x))) \<and>
       passed (seriousIssues (checks (check c now x))) \<and>
       passed (moderateIssues (checks (check c now x))) \<and>
       wcag_passed (wcagCompliance (checks (check c now x))))" for c x
    unfolding allChecksPassed_details details_check
    by (simp add: check_def Let_def)
  then show ?thesis
    by (simp add: check_simps determineOverallPass_def)
qed

theorem allChecksPassed_all_four_witness:
  "allChecksPassed (report (check default_config ''2024-01-01T00:00:00.000Z''
                              (audit_of_counts 0 2 5 10 85 PASSED)))"
  using allChecksPassed_all_four [of default_config "''2024-01-01T00:00:00.000Z''"
          "audit_of_counts 0 2 5 10 85 PASSED"]
  by (simp add: check_simps)

lemma check_timestamp: "result_timestamp (check config t a) = t"
  by (simp add: check_def Let_def)

text \<open>
  C8. Two calls of \<open>check\<close> on the same configuration and audit result agree on every
  field except the timestamp, which is the clock reading of each call; hence with the
  same clock reading the results are identical.
\<close>

theorem check_deterministic_up_to_timestamp:
  "check config t1 a = (check config t2 a)\<lparr>result_timestamp := t1\<rparr>
   \<and> result_timestamp (check config t1 a) = t1"
  by (simp add: check_def Let_def)

theorem check_deterministic_up_to_timestamp_witness:
  "result_passed (check default_config ''2024-01-01T00:00:00.000Z'' (audit_of_counts 0 2 5 10 85 PASSED))
   = result_passed (check default_config ''2024-01-01T00:00:00.001Z'' (audit_of_counts 0 2 5 10 85 PASSED))"
proof -
  have "check default_config ''2024-01-01T00:00:00.000Z'' (audit_of_counts 0 2 5 10 85 PASSED)
        = (check default_config ''2024-01-01T00:00:00.001Z'' (audit_of_counts 0 2 5 10 85 PASSED))
            \<lparr>result_timestamp := ''2024-01-01T00:00:00.000Z''\<rparr>"
    using check_deterministic_up_to_timestamp by blast
  then have "result_passed (check default_config ''2024-01-01T00:00:00.000Z'' (audit_of_counts 0 2 5 10 85 PASSED))
        = result_passed ((check default_config ''2024-01-01T00:00:00.001Z'' (audit_of_counts 0 2 5 10 85 PASSED))
            \<lparr>result_timestamp := ''2024-01-01T00:00:00.000Z''\<rparr>)"
    by (rule arg_cong)
  then show ?thesis by simp
qed

text \<open>
  The claim as stated, with the timestamp among the equal fields, fails: two calls one
  millisecond apart return different results.
\<close>

theorem check_timestamp_counterexample:
  "check default_config ''2024-01-01T00:00:00.000Z'' (audit_of_counts 0 2 5 10 85 PASSED)
   \<noteq> check default_config ''2024-01-01T00:00:00.001Z'' (audit_of_counts 0 2 5 10 85 PASSED)"
proof
  assume "check default_config ''2024-01-01T00:00:00.000Z'' (audit_of_counts 0 2 5 10 85 PASSED)
   = check default_config ''2024-01-01T00:00:00.001Z'' (audit_of_counts 0 2 5 10 85 PASSED)"
  then have "result_timestamp (check default_config ''2024-01-01T00:00:00.000Z'' (audit_of_counts 0 2 5 10 85 PASSED))
   = result_timestamp (check default_config ''2024-01-01T00:00:00.001Z'' (audit_of_counts 0 2 5 10 85 PASSED))"
    by (rule arg_cong)
  then show False
    unfolding check_timestamp by simp
qed

section \<open>Properties of the auditor\<close>

lemma severity_lookup:
  "or_default (get_property severityMap t) ''minor'' =
     (if t = ''error'' then Str ''critical''
      else if t = ''warning'' then Str ''serious''
      else if t = ''notice'' then Str ''moderate''
      else if t = ''info'' then Str ''minor''
      else if t \<in> set Object_prototype_names then Inherited t
      else Str ''minor'')"
  by (simp add: get_property_def severityMap_def)

lemma categorize_cases:
  "categorize iss f =
     (if type f = ''error'' then Inr (iss\<lparr>critical := critical iss @ [enrich f]\<rparr>)
      else if type f = ''warning'' then Inr (iss\<lparr>serious := serious iss @ [enrich f]\<rparr>)
      else if type f = ''notice'' then Inr (iss\<lparr>moderate := moderate iss @ [enrich f]\<rparr>)
      else if type f = ''info'' then Inr (iss\<lparr>minor := minor iss @ [enrich f]\<rparr>)
      else if type f \<in> set Object_prototype_names then Inl TypeError
      else Inr (iss\<lparr>minor := minor iss @ [enrich f]\<rparr>))"
  unfolding categorize_def Let_def severity_lookup
  by (simp add: push_issue_def enrich_def)

lemma categorize_inherited:
  "type f \<in> set Object_prototype_names \<Longrightarrow> categorize iss f = Inl TypeError"
  by (auto simp add: categorize_cases Object_prototype_names_def)

text \<open>
  Findings whose severity is not a property name of \<open>Object.prototype\<close> are all
  classified, in order: \<open>error\<close>, \<open>warning\<close> and \<open>notice\<close> go to their buckets and every
  other severity to \<open>minor\<close>.
\<close>

lemma forEach_categorize:
  assumes "\<forall>f \<in> set fs. type f \<notin> set Object_prototype_names"
  shows "forEach categorize fs iss =
     Inr \<lparr> critical = critical iss @ map enrich (filter (\<lambda>f. type f = ''error'') fs),
           serious = serious iss @ map enrich (filter (\<lambda>f. type f = ''warning'') fs),
           moderate = moderate iss @ map enrich (filter (\<lambda>f. type f = ''notice'') fs),
           minor = minor iss @ map enrich
                     (filter (\<lambda>f. type f \<noteq> ''error'' \<and> type f \<noteq> ''warning'' \<and> type f \<noteq> ''notice'') fs) \<rparr>"
  using assms
proof (induction fs arbitrary: iss)
  case Nil
  then show ?case by simp
next
  case (Cons f fs)
  then have ok: "type f \<notin> set Object_prototype_names"
    and rest: "\<forall>g \<in> set fs. type g \<notin> set Object_prototype_names"
    by simp_all
  note IH = Cons.IH [OF rest]
  consider (e) "type f = ''error''" | (w) "type f = ''warning''" | (n) "type f = ''notice''"
    | (o) "type f \<noteq> ''error''" "type f \<noteq> ''warning''" "type f \<noteq> ''notice''"
    by blast
  then show ?case
  proof cases
    case e
    then have "categorize iss f = Inr (iss\<lparr>critical := critical iss @ [enrich f]\<rparr>)"
      by (simp add: categorize_cases)
    then have "forEach categorize (f # fs) iss
                 = forEach categorize fs (iss\<lparr>critical := critical iss @ [enrich f]\<rparr>)"
      by simp
    then show ?thesis using e by (simp add: IH)
  next
    case w
    then have "categorize iss f = Inr (iss\<lparr>serious := serious iss @ [enrich f]\<rparr>)"
      by (simp add: categorize_cases)
    then have "forEach categorize (f # fs) iss
                 = forEach categorize fs (iss\<lparr>serious := serious iss @ [enrich f]\<rparr>)"
      by simp
    then show ?thesis using w by (simp add: IH)
  next
    case n
    then have "categorize iss f = Inr (iss\<lparr>moderate := moderate iss @ [enrich f]\<rparr>)"
      by (simp add: categorize_cases)
    then have "forEach categorize (f # fs) iss
                 = forEach categorize fs (iss\<lparr>moderate := moderate iss @ [enrich f]\<rparr>)"
      by simp
    then show ?thesis using n by (simp add: IH)
  next
    case o
    with ok have "categorize iss f = Inr (iss\<lparr>minor := minor iss @ [enrich f]\<rparr>)"
      by (simp add: categorize_cases)
    then have "forEach categorize (f # fs) iss
                 = forEach categorize fs (iss\<lparr>minor := minor iss @ [enrich f]\<rparr>)"
      by simp
    then show ?thesis using o by (simp add: IH)
  qed
qed

lemma length_four_filters:
  "length (filter (\<lambda>f. type f = ''error'') fs) + length (filter (\<lambda>f. type f = ''warning'') fs)
   + length (filter (\<lambda>f. type f = ''notice'') fs)
   + length (filter (\<lambda>f. type f \<noteq> ''error'' \<and> type f \<noteq> ''warning'' \<and> type f \<noteq> ''notice'') fs)
   = length (fs :: Finding list)"
  by (induction fs) auto

lemma processResults_total:
  assumes "\<forall>f \<in> set (pa11y_issues sr). type f \<notin> set Object_prototype_names"
  shows "\<exists>r. processResults config now sr = Inr r
           \<and> url r = documentTitle sr
           \<and> total (summary r) = critical_count (summary r) + serious_count (summary r)
                                  + moderate_count (summary r) + minor_count (summary r)
           \<and> critical_count (summary r) = length (critical (issues r))
           \<and> serious_count (summary r) = length (serious (issues r))
           \<and> moderate_count (summary r) = length (moderate (issues r))
           \<and> minor_count (summary r) = length (minor (issues r))"
  using length_four_filters [of "pa11y_issues sr"]
  by (simp add: processResults_def forEach_categorize [OF assms] Let_def)

lemma processResults_url: "processResults config now sr = Inr r \<Longrightarrow> url r = documentTitle sr"
  by (auto simp add: processResults_def Let_def split: sum.splits)

text \<open>
  C4. A finding whose engine severity is \<open>constructor\<close> makes the classification throw a
  TypeError instead of landing in \<open>minor\<close>: \<open>severityMap[issue.type]\<close> is then the function
  inherited from \<open>Object.prototype\<close>, which is truthy, and \<open>issues\<close> has no bucket for it.
\<close>

theorem processResults_constructor_throws:
  "processResults default_config ''2024-01-01T00:00:00.000Z'' odd_scan = Inl TypeError"
  by (simp add: processResults_def odd_scan_def finding_def categorize_inherited
        Object_prototype_names_def)

lemma bank_scan_types:
  "\<forall>f \<in> set (pa11y_issues bank_scan). type f \<notin> set Object_prototype_names"
  by (simp add: bank_scan_def finding_def Object_prototype_names_def)

lemma bank_audit_processed:
  "processResults default_config ''2024-01-01T00:00:00.000Z'' bank_scan = Inr bank_audit"
proof -
  have t: "\<forall>f \<in> set (pa11y_issues bank_scan). type f \<notin> set Object_prototype_names"
    by (rule bank_scan_types)
  have f: "forEach categorize (pa11y_issues bank_scan)
          \<lparr> critical = [], serious = [], moderate = [], minor = [] \<rparr>
        = Inr \<lparr> critical = [enrich (finding ''image-alt'' ''error'')],
                serious = [enrich (finding ''label'' ''warning'')],
                moderate = [], minor = [] \<rparr>"
    unfolding forEach_categorize [OF t] by (simp add: bank_scan_def finding_def)
  have c: "calculateCompliance
          \<lparr> critical = [enrich (finding ''image-alt'' ''error'')],
            serious = [enrich (finding ''label'' ''warning'')],
            moderate = [], minor = [] \<rparr> = 25"
  proof -
    have "calculateCompliance
          \<lparr> critical = [enrich (finding ''image-alt'' ''error'')],
            serious = [enrich (finding ''label'' ''warning'')],
            moderate = [], minor = [] \<rparr> = Math_round (fmul (fdiv 50 200) 100)"
      by (simp add: calculateCompliance_def)
    also have "\<dots> = 25" by code_simp
    finally show ?thesis .
  qed
  show ?thesis
    unfolding processResults_def f
    by (simp add: c bank_audit_def determineStatus_def default_config_def bank_scan_def)
qed

text \<open>
  The webhook message has six fields, none of them for a URL, and reads nothing of the
  audit result's \<open>url\<close>.
\<close>

lemma notification_titles:
  "field_titles (buildNotificationMessage config now_ms c a) =
     [''Status'', ''Compliance Score'', ''Critical Issues'', ''Serious Issues'',
      ''Total Issues'', ''Checks Summary'']"
  by (simp add: buildNotificationMessage_def field_titles_def Let_def)

lemma notification_ignores_url:
  "buildNotificationMessage config now_ms c (a\<lparr>url := u\<rparr>) = buildNotificationMessage config now_ms c a"
  by (simp add: buildNotificationMessage_def)

lemma notification_values:
  "field_values (buildNotificationMessage config now_ms c a) =
     [status_string (status a),
      Number_toString (Num (compliance a)) @ ''%'',
      Number_toString (Num (int (critical_count (summary a))))
        @ '' (Max: '' @ Number_toString (maxCriticalIssues config) @ '')'',
      Number_toString (Num (int (serious_count (summary a))))
        @ '' (Max: '' @ Number_toString (maxSeriousIssues config) @ '')'',
      Number_toString (Num (int (total (summary a)))),
      join_lines (report_summary (report c))]"
  by (simp add: buildNotificationMessage_def field_values_def Let_def)

lemma bank_notification_values:
  "field_values (buildNotificationMessage default_config 1704067200123
        (check default_config ''2024-01-01T00:00:00.000Z'' bank_audit) bank_audit)
   = [''FAILED'', ''25%'', ''1 (Max: 0)'', ''1 (Max: 5)'', ''2'',
      join_lines (report_summary (report (check default_config ''2024-01-01T00:00:00.000Z'' bank_audit)))]"
proof -
  have n: "nat_toString 25 = ''25''" "nat_toString (Suc 0) = ''1''"
    "nat_toString 0 = ''0''" "nat_toString 5 = ''5''" "nat_toString 2 = ''2''"
    by code_simp+
  show ?thesis
    unfolding notification_values by (simp add: bank_audit_def n)
qed

lemma report_summary_check:
  "report_summary (report (check config now a)) =
     [Some (message (checkCriticalIssues config a)), Some (message (checkSeriousIssues config a)),
      Some (message (checkModerateIssues config a)), Some (wcag_message (checkWCAGCompliance config a))]"
  by (simp add: check_def Let_def generateComplianceReport_def Object_values_def
        wcag_message_nonempty message_nonempty)

lemma summary_join_head:
  "\<exists>rest. join_lines (report_summary (report (check config now a))) = CHR 0xE2 # rest"
  unfolding report_summary_check
  by (simp add: checkCriticalIssues_def Let_def threshold_message_def check_mark_def cross_mark_def)

text \<open>
  C10. An audit result produced by \<open>audit\<close> carries the document title returned by the
  scan engine in its \<open>url\<close> field, and so does the \<open>auditResults\<close> block of the JSON
  report built from it; the requested URL is not stored. Every scan result whose
  severities are not property names of \<open>Object.prototype\<close> yields such an audit result.
  The webhook notification has no url field: its fields are the six titled below, and
  the message is the same whatever the \<open>url\<close> of the audit result.
\<close>

theorem audit_url_is_document_title:
  "(audit config now scan u = Inr r \<longrightarrow>
      (\<exists>sr. scan u = Inr sr \<and> url r = documentTitle sr
            \<and> report_url (buildReport_auditResults r) = documentTitle sr))
   \<and> (scan u = Inr sr \<and> (\<forall>f \<in> set (pa11y_issues sr). type f \<notin> set Object_prototype_names) \<longrightarrow>
        (\<exists>r'. audit config now scan u = Inr r' \<and> url r' = documentTitle sr))
   \<and> field_titles (buildNotificationMessage config now_ms c a)
       = [''Status'', ''Compliance Score'', ''Critical Issues'', ''Serious Issues'',
          ''Total Issues'', ''Checks Summary'']
   \<and> buildNotificationMessage config now_ms c (a\<lparr>url := u'\<rparr>) = buildNotificationMessage config now_ms c a"
proof (intro conjI impI)
  assume a: "audit config now scan u = Inr r"
  then obtain sr' where s: "scan u = Inr sr'" and p: "processResults config now sr' = Inr r"
    by (auto simp add: audit_def split: sum.splits)
  from p have "url r = documentTitle sr'" by (rule processResults_url)
  with s show "\<exists>sr. scan u = Inr sr \<and> url r = documentTitle sr
            \<and> report_url (buildReport_auditResults r) = documentTitle sr"
    by (simp add: buildReport_auditResults_def)
next
  assume "scan u = Inr sr \<and> (\<forall>f \<in> set (pa11y_issues sr). type f \<notin> set Object_prototype_names)"
  then have s: "scan u = Inr sr"
    and ok: "\<forall>f \<in> set (pa11y_issues sr). type f \<notin> set Object_prototype_names"
    by simp_all
  from processResults_total [OF ok, of config now]
  obtain r' where "processResults config now sr = Inr r'" "url r' = documentTitle sr"
    by blast
  with s show "\<exists>r'. audit config now scan u = Inr r' \<and> url r' = documentTitle sr"
    by (simp add: audit_def)
next
  show "field_titles (buildNotificationMessage config now_ms c a)
       = [''Status'', ''Compliance Score'', ''Critical Issues'', ''Serious Issues'',
          ''Total Issues'', ''Checks Summary'']"
    by (rule notification_titles)
next
  show "buildNotificationMessage config now_ms c (a\<lparr>url := u'\<rparr>) = buildNotificationMessage config now_ms c a"
    by (rule notification_ignores_url)
qed

theorem audit_url_is_document_title_witness:
  "bank_engine ''https://bank.example/'' = Inr bank_scan
   \<and> map type (pa11y_issues bank_scan) = [''error'', ''warning'']
   \<and> (\<exists>r'. audit default_config ''2024-01-01T00:00:00.000Z'' bank_engine ''https://bank.example/'' = Inr r'
           \<and> url r' = ''Example Bank - Home'')"
proof -
  have e: "bank_engine ''https://bank.example/'' = Inr bank_scan"
    by (simp add: bank_engine_def)
  have t: "documentTitle bank_scan = ''Example Bank - Home''"
    by (simp add: bank_scan_def)
  have m: "map type (pa11y_issues bank_scan) = [''error'', ''warning'']"
    by (simp add: bank_scan_def finding_def)
  from audit_url_is_document_title [of default_config "''2024-01-01T00:00:00.000Z''"
          bank_engine "''https://bank.example/''" _ bank_scan] e bank_scan_types
  have "\<exists>r'. audit default_config ''2024-01-01T00:00:00.000Z'' bank_engine ''https://bank.example/'' = Inr r'
           \<and> url r' = documentTitle bank_scan"
    by blast
  with e t m show ?thesis by simp
qed

text \<open>
  The claim as stated, with notifications carrying the page title in a url field, fails:
  for the scan of the example page no field of the notification is a url field and no
  field holds the title.
\<close>

theorem notification_url_counterexample:
  "processResults default_config ''2024-01-01T00:00:00.000Z'' bank_scan = Inr bank_audit
   \<and> url bank_audit = ''Example Bank - Home''
   \<and> field_titles (buildNotificationMessage default_config 1704067200123
         (check default_config ''2024-01-01T00:00:00.000Z'' bank_audit) bank_audit)
       = [''Status'', ''Compliance Score'', ''Critical Issues'', ''Serious Issues'',
          ''Total Issues'', ''Checks Summary'']
   \<and> ''Example Bank - Home'' \<notin> set (field_values (buildNotificationMessage default_config 1704067200123
         (check default_config ''2024-01-01T00:00:00.000Z'' bank_audit) bank_audit))"
proof -
  obtain rest where
    "join_lines (report_summary (report (check default_config ''2024-01-01T00:00:00.000Z'' bank_audit)))
       = CHR 0xE2 # rest"
    using summary_join_head by blast
  then have "''Example Bank - Home'' \<notin> set (field_values (buildNotificationMessage default_config 1704067200123
         (check default_config ''2024-01-01T00:00:00.000Z'' bank_audit) bank_audit))"
    unfolding bank_notification_values by simp
  moreover have "url bank_audit = ''Example Bank - Home''"
    by (simp add: bank_audit_def)
  ultimately show ?thesis
    using bank_audit_processed notification_titles by simp
qed

text \<open>On numeric thresholds both decisions reduce to the same two comparisons.\<close>

lemma determineStatus_numeric:
  assumes "maxCriticalIssues config \<noteq> NaN"
    and "failOnSerious config \<longrightarrow> maxSeriousIssues config \<noteq> NaN"
  shows "(determineStatus config iss = PASSED) =
           (js_le (length (critical iss)) (maxCriticalIssues config) \<and>
            (\<not> failOnSerious config \<or> js_le (length (serious iss)) (maxSeriousIssues config)))"
  using assms by (auto simp add: determineStatus_def js_le_iff_not_gt)

lemma determineOverallPass_numeric:
  "determineOverallPass config (checks (check config now a)) =
     (js_le (critical_count (summary a)) (maxCriticalIssues config) \<and>
      (\<not> failOnSerious config \<or> js_le (serious_count (summary a)) (maxSeriousIssues config)))"
  by (auto simp add: determineOverallPass_def check_simps)

text \<open>
  Hence the status that \<open>_processResults\<close> stores agrees with the checker's verdict on
  the same audit result.
\<close>

lemma processResults_status_matches_check:
  assumes "maxCriticalIssues config \<noteq> NaN"
    and "failOnSerious config \<longrightarrow> maxSeriousIssues config \<noteq> NaN"
    and "processResults config now sr = Inr r"
  shows "(status r = PASSED) = result_passed (check config now' r)"
proof -
  from assms(3) have "status r = determineStatus config (issues r)"
    and "critical_count (summary r) = length (critical (issues r))"
    and "serious_count (summary r) = length (serious (issues r))"
    by (auto simp add: processResults_def split: sum.splits)
  then show ?thesis
    using assms(1,2)
    by (simp add: determineStatus_numeric determineOverallPass_numeric check_simps(1))
qed

text \<open>
  When \<open>maxCriticalIssues\<close> is a number and, if \<open>failOnSerious\<close> is set, so is
  \<open>maxSeriousIssues\<close>, the auditor's status is \<open>PASSED\<close> exactly when the checker's overall
  pass holds on the summary counts of the same issue set.
\<close>

lemma status_matches_overall_pass:
  assumes "maxCriticalIssues config \<noteq> NaN"
    and "failOnSerious config \<longrightarrow> maxSeriousIssues config \<noteq> NaN"
    and "critical_count (summary a) = length (critical iss)"
    and "serious_count (summary a) = length (serious iss)"
  shows "(determineStatus config iss = PASSED) =
           determineOverallPass config (checks (check config now a))"
  using assms by (simp add: determineStatus_numeric determineOverallPass_numeric)

text \<open>
  With \<open>NaN\<close> for \<open>maxCriticalIssues\<close> and \<open>failOnSerious\<close> off the auditor passes every
  issue set and the checker fails every audit result.
\<close>

lemma determineStatus_nan:
  "maxCriticalIssues config = NaN \<Longrightarrow> \<not> failOnSerious config \<Longrightarrow> determineStatus config iss = PASSED"
  by (simp add: determineStatus_def)

lemma determineOverallPass_nan:
  "maxCriticalIssues config = NaN \<Longrightarrow> \<not> determineOverallPass config (checks (check config now a))"
  by (simp add: determineOverallPass_def check_simps)

text \<open>
  C5. With \<open>MAX_CRITICAL_ISSUES\<close> unreadable, so that \<open>maxCriticalIssues\<close> is \<open>NaN\<close>, an
  issue set with three critical issues gets the status \<open>PASSED\<close> from the auditor, while
  the checker's overall pass on the same counts is false.
\<close>

theorem status_passed_under_nan_threshold:
  "maxCriticalIssues nan_config = NaN
   \<and> length (critical (issues_of_counts 3 0 0 0)) = 3
   \<and> critical_count (summary (audit_of_counts 3 0 0 0 0 PASSED)) = 3
   \<and> determineStatus nan_config (issues_of_counts 3 0 0 0) = PASSED
   \<and> \<not> determineOverallPass nan_config
          (checks (check nan_config ''2024-01-01T00:00:00.000Z'' (audit_of_counts 3 0 0 0 0 PASSED)))"
  by (simp add: determineStatus_nan determineOverallPass_nan issues_of_counts_def)

section \<open>Properties of double-precision rounding\<close>

subsection \<open>Rounding to the nearest integer\<close>

lemma rne_cases: "rne x = \<lfloor>x\<rfloor> \<or> rne x = \<lfloor>x\<rfloor> + 1"
  by (simp add: rne_def Let_def)

lemma rne_ge_floor: "\<lfloor>x\<rfloor> \<le> rne x"
  using rne_cases [of x] by linarith

lemma rne_le_floor_Suc: "rne x \<le> \<lfloor>x\<rfloor> + 1"
  using rne_cases [of x] by linarith

lemma rne_of_int [simp]: "rne (of_int n) = n"
  by (simp add: rne_def)

lemma rne_error: "\<bar>of_int (rne x) - x\<bar> \<le> 1 / 2"
proof -
  have "of_int \<lfloor>x\<rfloor> \<le> x" "x < of_int \<lfloor>x\<rfloor> + 1"
    by linarith+
  then show ?thesis
    by (auto simp add: rne_def Let_def)
qed

lemma rne_mono: "x \<le> y \<Longrightarrow> rne x \<le> rne y"
proof -
  assume xy: "x \<le> y"
  then have f: "\<lfloor>x\<rfloor> \<le> \<lfloor>y\<rfloor>" by (rule floor_mono)
  show ?thesis
  proof (cases "\<lfloor>x\<rfloor> = \<lfloor>y\<rfloor>")
    case True
    with xy show ?thesis by (auto simp add: rne_def Let_def)
  next
    case False
    with f have "\<lfloor>x\<rfloor> + 1 \<le> \<lfloor>y\<rfloor>" by simp
    with rne_le_floor_Suc [of x] rne_ge_floor [of y] show ?thesis by linarith
  qed
qed

subsection \<open>The binary exponent\<close>

lemma powi_nat: "0 \<le> n \<Longrightarrow> (2::rat) powi n = 2 ^ nat n"
  by (simp add: power_int_def)

lemma bitlen_rat_bounds:
  assumes "0 < p"
  shows "(2::rat) powi (bitlen p - 1) \<le> of_int p" and "(of_int p :: rat) < 2 powi bitlen p"
proof -
  have b: "2 ^ nat (bitlen p - 1) \<le> p" "p < 2 ^ nat (bitlen p)"
    using bitlen_bounds [OF assms] by simp_all
  have p1: "0 \<le> bitlen p - 1"
    using assms bitlen_eq_zero_iff [of p] bitlen_nonneg [of p] by linarith
  have "(of_int (2 ^ nat (bitlen p - 1)) :: rat) \<le> of_int p"
    using b(1) by (simp only: of_int_le_iff)
  then show "(2::rat) powi (bitlen p - 1) \<le> of_int p"
    by (simp add: powi_nat [OF p1])
  have "(of_int p :: rat) < of_int (2 ^ nat (bitlen p))"
    using b(2) by (simp only: of_int_less_iff)
  then show "(of_int p :: rat) < 2 powi bitlen p"
    by (simp add: powi_nat [OF bitlen_nonneg])
qed

lemma ilog2_bounds:
  assumes "0 < x"
  shows "2 powi ilog2 x \<le> x" and "x < 2 powi (ilog2 x + 1)"
proof -
  obtain p q where pq: "quotient_of x = (p, q)" by (cases "quotient_of x")
  then have q: "0 < q" and x: "x = of_int p / of_int q"
    by (auto simp add: quotient_of_denom_pos quotient_of_div)
  with assms have p: "0 < p" by (simp add: zero_less_divide_iff)
  define k where "k = bitlen p - bitlen q"
  note P = bitlen_rat_bounds [OF p] and Q = bitlen_rat_bounds [OF q]
  have q': "(0::rat) < of_int q" using q by simp
  have pos: "(0::rat) < 2 powi n" for n by simp
  have "2 powi (k + 1) * 2 powi (bitlen q - 1) = (2::rat) powi bitlen p"
    by (simp add: k_def flip: power_int_add)
  moreover have "2 powi (k + 1) * 2 powi (bitlen q - 1) \<le> 2 powi (k + 1) * (of_int q :: rat)"
    using Q(1) pos [of "k + 1"] by (simp only: mult_le_cancel_left_pos)
  ultimately have "(of_int p :: rat) < 2 powi (k + 1) * of_int q"
    using P(2) by linarith
  then have up: "x < 2 powi (k + 1)"
    using q' by (simp add: x pos_divide_less_eq)
  have "2 powi (k - 1) * 2 powi bitlen q = (2::rat) powi (bitlen p - 1)"
    by (simp add: k_def flip: power_int_add)
  moreover have "2 powi (k - 1) * (of_int q :: rat) \<le> 2 powi (k - 1) * 2 powi bitlen q"
    using Q(2) pos [of "k - 1"] by (simp only: mult_le_cancel_left_pos less_imp_le)
  ultimately have "2 powi (k - 1) * of_int q \<le> (of_int p :: rat)"
    using P(1) by linarith
  then have lo: "2 powi (k - 1) \<le> x"
    using q' by (simp add: x pos_le_divide_eq)
  have e: "ilog2 x = (if 2 powi k \<le> x then k else k - 1)"
    unfolding ilog2_def pq k_def by simp
  show "2 powi ilog2 x \<le> x"
    using lo by (simp add: e)
  show "x < 2 powi (ilog2 x + 1)"
    using up by (auto simp add: e not_le)
qed

subsection \<open>Rounding to a double\<close>

lemma pow_shift: "(2::rat) powi (e - int n) * 2 ^ n = 2 powi e"
proof -
  have "(2::rat) powi (e - int n + int n) = 2 powi (e - int n) * 2 powi int n"
    by (rule power_int_add) simp
  then show ?thesis by simp
qed

lemma fl_pos_eq:
  "0 < x \<Longrightarrow> fl x = of_int (rne (x / 2 powi (ilog2 x - 52))) * 2 powi (ilog2 x - 52)"
  by (simp add: fl_def Let_def)

lemma fl_nonneg: "0 \<le> x \<Longrightarrow> 0 \<le> fl x"
proof (cases "x = 0")
  case True
  then show ?thesis by (simp add: fl_def)
next
  case False
  assume "0 \<le> x"
  with False have x: "0 < x" by simp
  have "0 \<le> x / 2 powi (ilog2 x - 52)" using x by simp
  then have "0 \<le> \<lfloor>x / 2 powi (ilog2 x - 52)\<rfloor>" by simp
  with rne_ge_floor [of "x / 2 powi (ilog2 x - 52)"]
  have "0 \<le> rne (x / 2 powi (ilog2 x - 52))" by linarith
  then show ?thesis by (simp add: fl_pos_eq [OF x])
qed

lemma fl_error:
  assumes "0 < x"
  shows "\<bar>fl x - x\<bar> \<le> x / 2 ^ 53"
proof -
  define u :: rat where "u = 2 powi (ilog2 x - 52)"
  define M :: rat where "M = 2 ^ 53"
  have u: "0 < u" by (simp add: u_def)
  have M: "0 < M" by (simp add: M_def)
  have uM: "u * M = 2 * 2 powi ilog2 x"
    using pow_shift [of "ilog2 x" 52] by (simp add: u_def M_def)
  have "fl x - x = (of_int (rne (x / u)) - x / u) * u"
    using u by (simp add: fl_pos_eq [OF assms] u_def left_diff_distrib)
  then have "\<bar>fl x - x\<bar> = \<bar>of_int (rne (x / u)) - x / u\<bar> * u"
    using u by (simp add: abs_mult)
  also have "\<dots> \<le> (1 / 2) * u"
    using rne_error [of "x / u"] u by (simp only: mult_le_cancel_right_pos)
  also have "\<dots> = 2 powi ilog2 x / M"
    using uM M by (simp add: field_simps)
  also have "\<dots> \<le> x / M"
    using ilog2_bounds(1) [OF assms] M by (simp add: divide_right_mono)
  finally show ?thesis by (simp add: M_def)
qed

lemma fl_ge_pow:
  assumes "0 < x"
  shows "2 powi ilog2 x \<le> fl x"
proof -
  define u :: rat where "u = 2 powi (ilog2 x - 52)"
  define M :: int where "M = 2 ^ 52"
  have u: "0 < u" by (simp add: u_def)
  have Mu: "of_int M * u = 2 powi ilog2 x"
    using pow_shift [of "ilog2 x" 52] by (simp add: u_def M_def mult.commute)
  have fx: "fl x = of_int (rne (x / u)) * u"
    by (simp add: fl_pos_eq [OF assms] u_def)
  have "of_int M * u \<le> x"
    using ilog2_bounds(1) [OF assms] Mu by simp
  then have "of_int M \<le> x / u"
    using u by (simp add: pos_le_divide_eq)
  then have "rne (of_int M) \<le> rne (x / u)"
    by (rule rne_mono)
  then have "M \<le> rne (x / u)"
    by (simp only: rne_of_int)
  then have "(of_int M :: rat) \<le> of_int (rne (x / u))"
    by (simp only: of_int_le_iff)
  then have "of_int M * u \<le> of_int (rne (x / u)) * u"
    using u by (simp only: mult_le_cancel_right_pos)
  with fx Mu show ?thesis by linarith
qed

lemma fl_le_pow:
  assumes "0 < x"
  shows "fl x \<le> 2 powi (ilog2 x + 1)"
proof -
  define u :: rat where "u = 2 powi (ilog2 x - 52)"
  define M :: int where "M = 2 ^ 53"
  have u: "0 < u" by (simp add: u_def)
  have Mu: "of_int M * u = 2 powi (ilog2 x + 1)"
    using pow_shift [of "ilog2 x + 1" 53] by (simp add: u_def M_def mult.commute)
  have fx: "fl x = of_int (rne (x / u)) * u"
    by (simp add: fl_pos_eq [OF assms] u_def)
  have "x \<le> of_int M * u"
    using ilog2_bounds(2) [OF assms] Mu by simp
  then have "x / u \<le> of_int M"
    using u by (simp add: pos_divide_le_eq)
  then have "rne (x / u) \<le> rne (of_int M)"
    by (rule rne_mono)
  then have "rne (x / u) \<le> M"
    by (simp only: rne_of_int)
  then have "(of_int (rne (x / u)) :: rat) \<le> of_int M"
    by (simp only: of_int_le_iff)
  then have "of_int (rne (x / u)) * u \<le> of_int M * u"
    using u by (simp only: mult_le_cancel_right_pos)
  with fx Mu show ?thesis by linarith
qed

lemma ilog2_mono:
  assumes "0 < x" "x \<le> y"
  shows "ilog2 x \<le> ilog2 y"
proof (rule ccontr)
  assume "\<not> ilog2 x \<le> ilog2 y"
  then have "ilog2 y + 1 \<le> ilog2 x" by simp
  then have "(2::rat) powi (ilog2 y + 1) \<le> 2 powi ilog2 x"
    by (simp add: power_int_increasing)
  moreover have "y < 2 powi (ilog2 y + 1)" "2 powi ilog2 x \<le> x"
    using assms ilog2_bounds [of x] ilog2_bounds [of y] by simp_all
  ultimately show False using assms by linarith
qed

lemma fl_mono:
  assumes "0 \<le> x" "x \<le> y"
  shows "fl x \<le> fl y"
proof (cases "x = 0")
  case True
  with assms fl_nonneg [of y] show ?thesis by (simp add: fl_def)
next
  case False
  with assms have x: "0 < x" and y: "0 < y" by simp_all
  show ?thesis
  proof (cases "ilog2 x = ilog2 y")
    case True
    define u :: rat where "u = 2 powi (ilog2 y - 52)"
    have u: "0 < u" by (simp add: u_def)
    have "x / u \<le> y / u" using assms u by (simp add: divide_right_mono)
    then have "rne (x / u) \<le> rne (y / u)" by (rule rne_mono)
    then have "(of_int (rne (x / u)) :: rat) \<le> of_int (rne (y / u))"
      by (simp only: of_int_le_iff)
    then have "of_int (rne (x / u)) * u \<le> of_int (rne (y / u)) * u"
      using u by (simp only: mult_le_cancel_right_pos)
    then show ?thesis
      by (simp add: fl_pos_eq [OF x] fl_pos_eq [OF y] True u_def)
  next
    case False
    with ilog2_mono [OF x assms(2)] have "ilog2 x + 1 \<le> ilog2 y" by simp
    then have "(2::rat) powi (ilog2 x + 1) \<le> 2 powi ilog2 y"
      by (simp add: power_int_increasing)
    with fl_le_pow [OF x] fl_ge_pow [OF y] show ?thesis by linarith
  qed
qed

section \<open>Properties of the compliance score\<close>

lemma calculateCompliance_eq:
  "calculateCompliance iss =
     (if bucket_total iss = 0 then 100
      else Math_round (fmul (fdiv (of_int (int (bucket_total iss * 100) - int (penalty_points iss)))
                                  (of_nat (bucket_total iss * 100))) 100))"
  by (simp add: calculateCompliance_def bucket_total_def penalty_points_def Let_def add.assoc)

lemma counts_simps [simp]:
  "bucket_total (issues_of_counts c s m n) = c + s + m + n"
  "penalty_points (issues_of_counts c s m n) = c * 100 + s * 50 + m * 20 + n * 5"
  by (simp_all add: bucket_total_def penalty_points_def issues_of_counts_def)

lemma points_bounds:
  "5 * bucket_total iss \<le> penalty_points iss" "penalty_points iss \<le> 100 * bucket_total iss"
  by (simp_all add: bucket_total_def penalty_points_def)

text \<open>The two roundings of the score move it by less than \<open>2^-44\<close>.\<close>

lemma two_roundings:
  assumes "0 \<le> x" "x \<le> 1"
  shows "\<bar>fmul (fl x) 100 - 100 * x\<bar> \<le> 1 / 2 ^ 44"
proof (cases "x = 0")
  case True
  then show ?thesis by (simp add: fmul_def fl_def)
next
  case False
  with assms have x: "0 < x" by simp
  define c :: rat where "c = 1 / 2 ^ 53"
  have c: "0 < c" "c < 1" "300 * c \<le> 1 / 2 ^ 44"
    by (simp_all add: c_def)
  define r where "r = fl x"
  have e1: "\<bar>r - x\<bar> \<le> x * c"
    using fl_error [OF x] by (simp add: r_def c_def)
  have "x * c < x * 1"
    using c(2) x by (rule mult_strict_left_mono)
  with e1 have r: "0 < r" by linarith
  then have r100: "0 < r * 100" by simp
  have e2: "\<bar>fl (r * 100) - r * 100\<bar> \<le> (r * 100) * c"
    using fl_error [OF r100] by (simp add: c_def)
  have "x * c \<le> 1 * c"
    using assms(2) c(1) by (intro mult_right_mono) simp_all
  with e1 assms c have r2: "r * 100 \<le> 200" and e1': "\<bar>r - x\<bar> \<le> c" by linarith+
  have "(r * 100) * c \<le> 200 * c"
    using r2 c(1) by (intro mult_right_mono) simp_all
  with e2 have e2': "\<bar>fl (r * 100) - r * 100\<bar> \<le> 200 * c" by linarith
  have "\<bar>fl (r * 100) - 100 * x\<bar> \<le> 300 * c"
    using e1' e2' by linarith
  with c(3) show ?thesis by (simp add: fmul_def r_def)
qed

text \<open>The exact ratio behind the score and the value the code computes from it.\<close>

lemma ratio_bounds:
  assumes "0 < bucket_total iss"
  shows "0 \<le> (of_int (int (bucket_total iss * 100) - int (penalty_points iss)) :: rat)
               / of_nat (bucket_total iss * 100)"
    and "(of_int (int (bucket_total iss * 100) - int (penalty_points iss)) :: rat)
               / of_nat (bucket_total iss * 100) \<le> 95 / 100"
proof -
  define T where "T = bucket_total iss"
  define P where "P = penalty_points iss"
  have T: "0 < T" using assms by (simp add: T_def)
  have P: "5 * T \<le> P" "P \<le> 100 * T"
    using points_bounds [of iss] by (simp_all add: T_def P_def)
  have d: "(0::rat) < of_nat (T * 100)" using T by simp
  have n: "(0::rat) \<le> of_int (int (T * 100) - int P)" using P by simp
  show "0 \<le> (of_int (int (bucket_total iss * 100) - int (penalty_points iss)) :: rat)
               / of_nat (bucket_total iss * 100)"
    using n d unfolding T_def P_def by (simp only: zero_le_divide_iff) simp
  have "int (T * 100) - int P \<le> 95 * int T" using P by simp
  then have "(of_int (int (T * 100) - int P) :: rat) \<le> of_int (95 * int T)"
    by (simp only: of_int_le_iff)
  then have "(of_int (int (T * 100) - int P) :: rat) * 100 \<le> 95 * of_nat (T * 100)"
    by simp
  then show "(of_int (int (bucket_total iss * 100) - int (penalty_points iss)) :: rat)
               / of_nat (bucket_total iss * 100) \<le> 95 / 100"
    using d unfolding T_def P_def by (simp add: field_simps)
qed

lemma score_value:
  assumes "0 < bucket_total iss"
  shows "calculateCompliance iss =
           Math_round (fmul (fl ((of_int (int (bucket_total iss * 100) - int (penalty_points iss)) :: rat)
                                  / of_nat (bucket_total iss * 100))) 100)"
  using assms by (simp add: calculateCompliance_eq fdiv_def)

lemma Math_round_mono: "x \<le> y \<Longrightarrow> Math_round x \<le> Math_round y"
  by (simp add: Math_round_def floor_mono)

lemma score_mono:
  assumes "0 \<le> x" "x \<le> y"
  shows "Math_round (fmul (fl x) 100) \<le> Math_round (fmul (fl y) 100)"
proof -
  have "fl x \<le> fl y" using assms by (rule fl_mono)
  moreover have "0 \<le> fl x" using assms(1) by (rule fl_nonneg)
  ultimately have "0 \<le> fl x * 100" "fl x * 100 \<le> fl y * 100" by simp_all
  then have "fl (fl x * 100) \<le> fl (fl y * 100)" by (rule fl_mono)
  then show ?thesis unfolding fmul_def by (rule Math_round_mono)
qed

lemma score_range:
  assumes "0 < bucket_total iss"
  shows "0 \<le> calculateCompliance iss" and "calculateCompliance iss \<le> 95"
proof -
  define x :: rat where
    "x = of_int (int (bucket_total iss * 100) - int (penalty_points iss)) / of_nat (bucket_total iss * 100)"
  have x: "0 \<le> x" "x \<le> 95 / 100"
    using ratio_bounds [OF assms] by (simp_all add: x_def)
  have v: "calculateCompliance iss = Math_round (fmul (fl x) 100)"
    using score_value [OF assms] by (simp add: x_def)
  have "0 \<le> fl x" using x(1) by (rule fl_nonneg)
  then have "0 \<le> fl x * 100" by simp
  then have "0 \<le> fmul (fl x) 100" unfolding fmul_def by (rule fl_nonneg)
  then have "0 \<le> \<lfloor>fmul (fl x) 100 + 1 / 2\<rfloor>" by simp
  then show "0 \<le> calculateCompliance iss" by (simp add: v Math_round_def)
  have "\<bar>fmul (fl x) 100 - 100 * x\<bar> \<le> 1 / 2 ^ 44"
    using x by (intro two_roundings) simp_all
  moreover have "(1::rat) / 2 ^ 44 < 1 / 2" by simp
  ultimately have "fmul (fl x) 100 + 1 / 2 < 96" using x(2) by linarith
  then have "\<lfloor>fmul (fl x) 100 + 1 / 2\<rfloor> < 96"
    by (simp only: floor_less_iff)
  then show "calculateCompliance iss \<le> 95" by (simp add: v Math_round_def)
qed

lemma calculateCompliance_range:
  "0 \<le> calculateCompliance iss \<and> calculateCompliance iss \<le> 100
   \<and> (calculateCompliance iss = 100 \<longleftrightarrow> bucket_total iss = 0)"
proof (cases "bucket_total iss = 0")
  case True
  then show ?thesis by (simp add: calculateCompliance_eq)
next
  case False
  then have T: "0 < bucket_total iss" by simp
  from score_range [OF T] have "0 \<le> calculateCompliance iss" "calculateCompliance iss \<le> 95" .
  then show ?thesis using False by simp
qed

text \<open>
  With at most 95 issues the exact percentages of the two sets are at least one apart
  and a half-way point lies at least \<open>1/190\<close> away from the second one, well beyond the
  rounding error.
\<close>

lemma round_gap:
  fixes yA yB :: rat and K T :: int
  assumes T: "1 \<le> T" "T \<le> 95" and K: "0 \<le> K"
    and eA: "\<bar>yA - of_int K / of_int T\<bar> \<le> 1 / 2 ^ 44"
    and eB: "\<bar>yB - of_int (K + 95) / of_int T\<bar> \<le> 1 / 2 ^ 44"
  shows "Math_round yA < Math_round yB"
proof -
  define N where "N = 2 * K + T"
  define D where "D = 2 * T"
  define j where "j = N div D"
  define r where "r = N mod D"
  define q :: rat where "q = 1 / of_int D"
  have D: "0 < D" "D \<le> 190" using T by (simp_all add: D_def)
  have N: "N = D * j + r" by (simp add: j_def r_def)
  have r: "0 \<le> r" "r < D" using D by (simp_all add: r_def)
  have r1: "D + 1 \<le> r + 190"
  proof (cases "T = 95")
    case True
    have "1 \<le> (2 * K + 95) mod 190" by presburger
    then show ?thesis by (simp add: D_def r_def N_def True)
  next
    case False
    with T r show ?thesis by (simp add: D_def)
  qed
  have q: "0 < q" "of_int D * q = 1" using D by (simp_all add: q_def)
  have q190: "1 \<le> 190 * q"
  proof -
    have "(of_int D :: rat) \<le> of_int 190" using D(2) by (simp only: of_int_le_iff)
    then have "of_int D * q \<le> 190 * q" using q(1) by (simp only: of_int_numeral mult_le_cancel_right_pos)
    with q(2) show ?thesis by simp
  qed
  have Tq: "of_int T * q = 1 / 2" using T by (simp add: q_def D_def)
  have a: "of_int K / of_int T = 2 * of_int K * q" using T by (simp add: q_def D_def)
  have b: "of_int (K + 95) / of_int T = 2 * of_int K * q + 190 * q"
    using T by (simp add: q_def D_def field_simps)
  have "of_int N * q = of_int (D * j + r) * q" by (simp only: N)
  also have "\<dots> = of_int j * (of_int D * q) + of_int r * q" by (simp add: algebra_simps)
  finally have Nq: "of_int N * q = of_int j + of_int r * q" by (simp add: q(2))
  have N2: "of_int N * q = 2 * of_int K * q + 1 / 2"
    using Tq by (simp add: N_def algebra_simps)
  have "(of_int r :: rat) \<le> of_int (D - 1)" using r(2) by (simp only: of_int_le_iff)
  then have "of_int r * q \<le> of_int (D - 1) * q" using q(1) by (simp only: mult_le_cancel_right_pos)
  also have "\<dots> = 1 - q" using q(2) by (simp add: algebra_simps)
  finally have rq_up: "of_int r * q \<le> 1 - q" .
  have "(of_int (D + 1) :: rat) \<le> of_int (r + 190)" using r1 by (simp only: of_int_le_iff)
  then have "of_int (D + 1) * q \<le> of_int (r + 190) * q" using q(1) by (simp only: mult_le_cancel_right_pos)
  then have rq_lo: "1 + q \<le> of_int r * q + 190 * q" using q(2) by (simp add: algebra_simps)
  have eps: "(1::rat) / 2 ^ 44 < 1 / 190" by simp
  have "yA + 1 / 2 < of_int j + 1"
    using eA a N2 Nq rq_up q190 eps by linarith
  then have "yA + 1 / 2 < of_int (j + 1)" by simp
  then have A: "Math_round yA < j + 1" unfolding Math_round_def by (simp only: floor_less_iff)
  have "of_int j + 1 \<le> yB + 1 / 2"
    using eB b N2 Nq rq_lo q190 eps by linarith
  then have "of_int (j + 1) \<le> yB + 1 / 2" by simp
  then have B: "j + 1 \<le> Math_round yB" unfolding Math_round_def by (simp only: le_floor_iff)
  from A B show ?thesis by linarith
qed

lemma percentage_cancel:
  assumes "0 < T"
  shows "100 * ((of_int K :: rat) / of_nat (T * 100)) = of_int K / of_int (int T)"
  using assms by simp

text \<open>
  C7. Of two issue sets that differ by one more critical issue in the first and one more
  minor issue in the second, the first never scores higher, and it scores strictly lower
  when the sets hold at most 95 issues each.
\<close>

theorem critical_scores_below_minor:
  assumes "length (critical a) = Suc (length (critical b))"
    and "length (minor b) = Suc (length (minor a))"
    and "length (serious a) = length (serious b)"
    and "length (moderate a) = length (moderate b)"
  shows "calculateCompliance a \<le> calculateCompliance b
         \<and> (bucket_total a \<le> 95 \<longrightarrow> calculateCompliance a < calculateCompliance b)"
proof -
  define T where "T = bucket_total a"
  define K where "K = int (T * 100) - int (penalty_points a)"
  define xa :: rat where "xa = of_int K / of_nat (T * 100)"
  define xb :: rat where "xb = of_int (K + 95) / of_nat (T * 100)"
  have Tb: "bucket_total b = T" and T: "0 < T"
    using assms by (simp_all add: T_def bucket_total_def)
  have Pb: "int (T * 100) - int (penalty_points b) = K + 95"
    using assms by (simp add: K_def penalty_points_def)
  have Ta: "0 < bucket_total a" using T by (simp add: T_def)
  have Tb': "0 < bucket_total b" using T by (simp add: Tb)
  have "0 \<le> xa" "xa \<le> 95 / 100"
    using ratio_bounds [OF Ta] unfolding xa_def K_def T_def by blast+
  then have xa: "0 \<le> xa" "xa \<le> 1" by linarith+
  have "0 \<le> xb" "xb \<le> 95 / 100"
    using ratio_bounds [OF Tb', unfolded Tb Pb] unfolding xb_def by blast+
  then have xb: "0 \<le> xb" "xb \<le> 1" by linarith+
  have K: "0 \<le> K"
    using points_bounds(2) [of a] by (simp add: K_def T_def)
  have va: "calculateCompliance a = Math_round (fmul (fl xa) 100)"
    using score_value [OF Ta] unfolding xa_def K_def T_def by blast
  have vb: "calculateCompliance b = Math_round (fmul (fl xb) 100)"
    using score_value [OF Tb', unfolded Tb Pb] unfolding xb_def by blast
  have "(of_int K :: rat) \<le> of_int (K + 95)" by simp
  then have "xa \<le> xb"
    unfolding xa_def xb_def by (rule divide_right_mono) simp
  with xa(1) have le: "calculateCompliance a \<le> calculateCompliance b"
    unfolding va vb by (rule score_mono)
  have lt: "calculateCompliance a < calculateCompliance b" if small: "bucket_total a \<le> 95"
  proof -
    have T95: "1 \<le> int T" "int T \<le> 95" using T small by (simp_all add: T_def)
    have ea: "\<bar>fmul (fl xa) 100 - of_int K / of_int (int T)\<bar> \<le> 1 / 2 ^ 44"
      using two_roundings [OF xa] percentage_cancel [OF T, of K] by (simp add: xa_def)
    have eb: "\<bar>fmul (fl xb) 100 - of_int (K + 95) / of_int (int T)\<bar> \<le> 1 / 2 ^ 44"
      using two_roundings [OF xb] percentage_cancel [OF T, of "K + 95"] by (simp add: xb_def)
    show ?thesis
      unfolding va vb using T95 K ea eb by (rule round_gap)
  qed
  from le lt show ?thesis by simp
qed

lemma score_191_0_0_0: "calculateCompliance (issues_of_counts 191 0 0 0) = 0"
proof -
  have "calculateCompliance (issues_of_counts 191 0 0 0) = Math_round (fmul (fdiv 0 19100) 100)"
    by (simp add: calculateCompliance_eq)
  also have "\<dots> = 0" by code_simp
  finally show ?thesis .
qed

lemma score_190_0_0_1: "calculateCompliance (issues_of_counts 190 0 0 1) = 0"
proof -
  have "calculateCompliance (issues_of_counts 190 0 0 1) = Math_round (fmul (fdiv 95 19100) 100)"
    by (simp add: calculateCompliance_eq)
  also have "\<dots> = 0" by code_simp
  finally show ?thesis .
qed

lemma issues_of_counts_lengths [simp]:
  "length (critical (issues_of_counts c s m n)) = c"
  "length (serious (issues_of_counts c s m n)) = s"
  "length (moderate (issues_of_counts c s m n)) = m"
  "length (minor (issues_of_counts c s m n)) = n"
  by (simp_all add: issues_of_counts_def)

theorem critical_scores_below_minor_witness:
  "length (critical (issues_of_counts 1 0 0 0)) = Suc (length (critical (issues_of_counts 0 0 0 1)))
   \<and> length (minor (issues_of_counts 0 0 0 1)) = Suc (length (minor (issues_of_counts 1 0 0 0)))
   \<and> bucket_total (issues_of_counts 1 0 0 0) \<le> 95
   \<and> calculateCompliance (issues_of_counts 1 0 0 0) < calculateCompliance (issues_of_counts 0 0 0 1)"
  using critical_scores_below_minor [of "issues_of_counts 1 0 0 0" "issues_of_counts 0 0 0 1"]
  by simp

text \<open>
  The strict inequality fails for large sets: 191 critical issues score 0, and so do 190
  critical issues with one minor issue.
\<close>

theorem critical_scores_below_minor_counterexample:
  "length (critical (issues_of_counts 191 0 0 0)) = Suc (length (critical (issues_of_counts 190 0 0 1)))
   \<and> length (minor (issues_of_counts 190 0 0 1)) = Suc (length (minor (issues_of_counts 191 0 0 0)))
   \<and> length (serious (issues_of_counts 191 0 0 0)) = length (serious (issues_of_counts 190 0 0 1))
   \<and> length (moderate (issues_of_counts 191 0 0 0)) = length (moderate (issues_of_counts 190 0 0 1))
   \<and> \<not> calculateCompliance (issues_of_counts 191 0 0 0) < calculateCompliance (issues_of_counts 190 0 0 1)"
  using score_191_0_0_0 score_190_0_0_1 by simp

lemma score_ties:
  "calculateCompliance (issues_of_counts 8 1 0 1) = 14"
  "calculateCompliance (issues_of_counts 6 2 0 0) = 13"
proof -
  have "calculateCompliance (issues_of_counts 8 1 0 1) = Math_round (fmul (fdiv 145 1000) 100)"
    by (simp add: calculateCompliance_eq)
  also have "\<dots> = 14" by code_simp
  finally show "calculateCompliance (issues_of_counts 8 1 0 1) = 14" .
  have "calculateCompliance (issues_of_counts 6 2 0 0) = Math_round (fmul (fdiv 100 800) 100)"
    by (simp add: calculateCompliance_eq)
  also have "\<dots> = 13" by code_simp
  finally show "calculateCompliance (issues_of_counts 6 2 0 0) = 13" .
qed

lemma exact_percentage_eq:
  assumes "0 < bucket_total iss"
  shows "exact_percentage iss =
           of_int (int (bucket_total iss * 100) - int (penalty_points iss)) / of_int (int (bucket_total iss))"
proof -
  define K where "K = int (bucket_total iss * 100) - int (penalty_points iss)"
  have "(of_int K :: rat) / of_nat (bucket_total iss * 100) * 100
          = 100 * (of_int K / of_nat (bucket_total iss * 100))"
    by (rule mult.commute)
  also have "\<dots> = of_int K / of_int (int (bucket_total iss))"
    by (rule percentage_cancel [OF assms])
  finally show ?thesis unfolding exact_percentage_def K_def .
qed

text \<open>
  Away from an exact tie the rounding error of the doubles is too small to matter: the
  exact value plus one half is a fraction with denominator \<open>2 * total\<close>, so unless it is
  an integer it stays \<open>1 / (2 * total)\<close> away from the next one.
\<close>

lemma round_off_tie:
  fixes y :: rat and K T :: int
  assumes T: "1 \<le> T" "T < 2 ^ 40"
    and e: "\<bar>y - of_int K / of_int T\<bar> \<le> 1 / 2 ^ 44"
    and nt: "of_int K / of_int T + 1 / 2 \<notin> (\<int> :: rat set)"
  shows "Math_round y = \<lfloor>(of_int K / of_int T + 1 / 2 :: rat)\<rfloor>"
proof -
  define N where "N = 2 * K + T"
  define D where "D = 2 * T"
  define j where "j = N div D"
  define r where "r = N mod D"
  define q :: rat where "q = 1 / of_int D"
  have D: "0 < D" "D < 2 ^ 41" using T by (simp_all add: D_def)
  have N: "N = D * j + r" by (simp add: j_def r_def)
  have r: "0 \<le> r" "r < D" using D by (simp_all add: r_def)
  have q: "0 < q" "of_int D * q = 1" using D by (simp_all add: q_def)
  have Tq: "of_int T * q = 1 / 2" using T by (simp add: q_def D_def)
  have a: "of_int K / of_int T = 2 * of_int K * q" using T by (simp add: q_def D_def)
  have "of_int N * q = of_int (D * j + r) * q" by (simp only: N)
  also have "\<dots> = of_int j * (of_int D * q) + of_int r * q" by (simp add: algebra_simps)
  finally have Nq: "of_int N * q = of_int j + of_int r * q" by (simp add: q(2))
  have N2: "of_int N * q = of_int K / of_int T + 1 / 2"
    using Tq a by (simp add: N_def algebra_simps)
  have w: "of_int K / of_int T + 1 / 2 = of_int j + of_int r * q"
    using Nq N2 by simp
  have "r \<noteq> 0"
  proof
    assume "r = 0"
    with w have "of_int K / of_int T + 1 / 2 = (of_int j :: rat)" by simp
    then have "of_int K / of_int T + 1 / 2 \<in> (\<int> :: rat set)" by (simp only: Ints_of_int)
    with nt show False by simp
  qed
  with r have r1: "1 \<le> r" "r \<le> D - 1" by simp_all
  have "(of_int 1 :: rat) \<le> of_int r" using r1(1) by (simp only: of_int_le_iff)
  then have "of_int 1 * q \<le> of_int r * q" using q(1) by (simp only: mult_le_cancel_right_pos)
  then have rq_lo: "q \<le> of_int r * q" by simp
  have "(of_int r :: rat) \<le> of_int (D - 1)" using r1(2) by (simp only: of_int_le_iff)
  then have "of_int r * q \<le> of_int (D - 1) * q" using q(1) by (simp only: mult_le_cancel_right_pos)
  also have "\<dots> = 1 - q" using q(2) by (simp add: algebra_simps)
  finally have rq_up: "of_int r * q \<le> 1 - q" .
  have qbig: "1 / 2 ^ 41 < q"
  proof -
    have "(of_int D :: rat) < of_int (2 ^ 41)" using D(2) by (simp only: of_int_less_iff)
    then have "(of_int D :: rat) < 2 ^ 41" by simp
    moreover have "(0 :: rat) < of_int D" using D(1) by simp
    ultimately show ?thesis unfolding q_def by (intro divide_strict_left_mono) simp_all
  qed
  have eps: "(1::rat) / 2 ^ 44 < 1 / 2 ^ 41" by simp
  have fl_w: "\<lfloor>(of_int K / of_int T + 1 / 2 :: rat)\<rfloor> = j"
  proof (rule floor_unique)
    show "of_int j \<le> (of_int K / of_int T + 1 / 2 :: rat)" using w rq_lo q(1) by linarith
    show "(of_int K / of_int T + 1 / 2 :: rat) < of_int j + 1" using w rq_up q(1) by linarith
  qed
  have "\<lfloor>y + 1 / 2\<rfloor> = j"
  proof (rule floor_unique)
    show "of_int j \<le> y + 1 / 2" using e w rq_lo qbig eps by linarith
    show "y + 1 / 2 < of_int j + 1" using e w rq_up qbig eps by linarith
  qed
  with fl_w show ?thesis by (simp add: Math_round_def)
qed

lemma score_nearest_off_ties:
  assumes T: "0 < bucket_total iss" "bucket_total iss < 2 ^ 40"
    and nt: "exact_percentage iss + 1 / 2 \<notin> \<int>"
  shows "calculateCompliance iss = spec_compliance_half_up iss"
proof -
  define K where "K = int (bucket_total iss * 100) - int (penalty_points iss)"
  define x :: rat where "x = of_int K / of_nat (bucket_total iss * 100)"
  have "0 \<le> x" "x \<le> 95 / 100"
    using ratio_bounds [OF T(1)] unfolding x_def K_def by blast+
  then have x: "0 \<le> x" "x \<le> 1" by linarith+
  have v: "calculateCompliance iss = Math_round (fmul (fl x) 100)"
    using score_value [OF T(1)] unfolding x_def K_def by blast
  have ep: "exact_percentage iss = of_int K / of_int (int (bucket_total iss))"
    using exact_percentage_eq [OF T(1)] by (simp add: K_def)
  have e: "\<bar>fmul (fl x) 100 - of_int K / of_int (int (bucket_total iss))\<bar> \<le> 1 / 2 ^ 44"
    using two_roundings [OF x] percentage_cancel [OF T(1), of K] by (simp add: x_def)
  have T': "1 \<le> int (bucket_total iss)" "int (bucket_total iss) < 2 ^ 40"
    using T by simp_all
  have "Math_round (fmul (fl x) 100) = \<lfloor>(of_int K / of_int (int (bucket_total iss)) + 1 / 2 :: rat)\<rfloor>"
    using T' e nt [unfolded ep] by (rule round_off_tie)
  then show ?thesis
    using T(1) by (simp add: v spec_compliance_half_up_def ep)
qed

text \<open>
  C3. Three serious issues and one moderate issue have the exact percentage 57.5, which
  half-up and half-even rounding both take to 58; the code returns 57, because the
  quotient 0.575 times 100 is the double 57.49999999999999.
\<close>

theorem calculateCompliance_tie_deviates:
  "calculateCompliance (issues_of_counts 0 3 1 0) = 57
   \<and> exact_percentage (issues_of_counts 0 3 1 0) = 115 / 2
   \<and> spec_compliance_half_up (issues_of_counts 0 3 1 0) = 58
   \<and> spec_compliance_half_even (issues_of_counts 0 3 1 0) = 58"
proof -
  have "calculateCompliance (issues_of_counts 0 3 1 0) = Math_round (fmul (fdiv 230 400) 100)"
    by (simp add: calculateCompliance_eq)
  also have "\<dots> = 57" by code_simp
  finally have c: "calculateCompliance (issues_of_counts 0 3 1 0) = 57" .
  have p: "exact_percentage (issues_of_counts 0 3 1 0) = 115 / 2"
    by (simp add: exact_percentage_def)
  have "\<lfloor>(115 / 2 + 1 / 2 :: rat)\<rfloor> = 58" by simp
  then have u: "spec_compliance_half_up (issues_of_counts 0 3 1 0) = 58"
    unfolding spec_compliance_half_up_def p by simp
  have "rne (115 / 2) = 58" by code_simp
  then have e: "spec_compliance_half_even (issues_of_counts 0 3 1 0) = 58"
    unfolding spec_compliance_half_even_def p by simp
  from c p u e show ?thesis by simp
qed

section \<open>Properties of the report download\<close>

text \<open>
  C2. The request \<open>GET /reports/..%2Fpackage.json\<close>, whose filename parameter is
  \<open>../package.json\<close>, is not refused: the joined path leaves the report directory
  \<open>/app/reports\<close>, the file exists, and the handler passes \<open>/app/package.json\<close> to
  \<open>res.download\<close>.
\<close>

theorem download_report_leaves_directory:
  "download_report ''/app/src'' default_config app_files ''../package.json''
     = Download ''/app/package.json''
   \<and> reports_dir ''/app/src'' default_config = ''/app/reports''
   \<and> \<not> inside (reports_dir ''/app/src'' default_config) ''/app/package.json''"
  by code_simp

text \<open>A report of the directory itself is served from inside it, and a missing file gives 404.\<close>

lemma download_report_regular:
  "download_report ''/app/src'' default_config app_files ''compliance-report-2024-01-01.json''
     = Download ''/app/reports/compliance-report-2024-01-01.json''"
  "inside (reports_dir ''/app/src'' default_config) ''/app/reports/compliance-report-2024-01-01.json''"
  "download_report ''/app/src'' default_config app_files ''missing.json'' = Status 404 ''Report not found''"
  by code_simp+

end
